theory Spec2Isabelle
  imports
    Complex_Main
    "HOL-Library.AList"
    "HOL-Library.Stream"
    "HOL-Library.Sublist"
    "HOL-Library.Char_ord"
    "HOL-Library.List_Lexorder"
begin

section \<open>The environment of the simulator\<close>

text \<open>
  The three modules (\<^verbatim>\<open>oam.py\<close>, \<^verbatim>\<open>kpi.py\<close>, \<^verbatim>\<open>event.py\<close>) read the process-wide random
  source, the wall clock and \<^verbatim>\<open>time.sleep\<close>.  These are made explicit as a value that is
  passed through every operation:
  \<^item> \<open>rand\<close>: the outcomes of the successive draws of the random source, each a number of
    the unit interval as \<^verbatim>\<open>random.random()\<close> returns it; the other primitives of the
    \<^verbatim>\<open>random\<close> module consume one draw each and scale it;
  \<^item> \<open>clock\<close>: the successive values of \<^verbatim>\<open>datetime.now().isoformat()\<close>;
  \<^item> \<open>slept\<close>: the arguments of the calls of \<^verbatim>\<open>time.sleep\<close>, in call order.
  Python floats are modelled as reals; log output is not modelled.
\<close>

record world =
  rand :: "real stream"
  clock :: "string stream"
  slept :: "real list"

definition py_random :: "world \<Rightarrow> real \<times> world" where
  "py_random w = (shd (rand w), w\<lparr>rand := stl (rand w)\<rparr>)"

definition py_uniform :: "real \<Rightarrow> real \<Rightarrow> world \<Rightarrow> real \<times> world" where
  "py_uniform a b w = (a + (b - a) * shd (rand w), w\<lparr>rand := stl (rand w)\<rparr>)"

definition py_randint :: "int \<Rightarrow> int \<Rightarrow> world \<Rightarrow> int \<times> world" where
  "py_randint a b w = (a + \<lfloor>shd (rand w) * of_int (b - a + 1)\<rfloor>, w\<lparr>rand := stl (rand w)\<rparr>)"

text \<open>\<^verbatim>\<open>random.choice\<close> on a non-empty sequence; the callers below guard the empty case.\<close>

definition py_choice :: "'a list \<Rightarrow> world \<Rightarrow> 'a \<times> world" where
  "py_choice xs w =
     (xs ! min (nat \<lfloor>shd (rand w) * of_nat (length xs)\<rfloor>) (length xs - 1),
      w\<lparr>rand := stl (rand w)\<rparr>)"

definition now_iso :: "world \<Rightarrow> string \<times> world" where
  "now_iso w = (shd (clock w), w\<lparr>clock := stl (clock w)\<rparr>)"

definition py_sleep :: "real \<Rightarrow> world \<Rightarrow> world" where
  "py_sleep d w = w\<lparr>slept := slept w @ [d]\<rparr>"

datatype py_error = KeyError | IndexError | ValueError

text \<open>A simulated network element, the dictionaries of the \<^verbatim>\<open>network_nodes\<close> lists.\<close>

record node =
  n_id :: string
  n_type :: string
  n_ip :: string
  n_status :: string

definition initial_nodes :: "node list" where
  "initial_nodes =
    [\<lparr>n_id = ''gnb-001'', n_type = ''gNB'', n_ip = ''10.0.1.1'', n_status = ''active''\<rparr>,
     \<lparr>n_id = ''gnb-002'', n_type = ''gNB'', n_ip = ''10.0.1.2'', n_status = ''active''\<rparr>,
     \<lparr>n_id = ''amf-001'', n_type = ''AMF'', n_ip = ''10.0.2.1'', n_status = ''active''\<rparr>,
     \<lparr>n_id = ''smf-001'', n_type = ''SMF'', n_ip = ''10.0.2.2'', n_status = ''active''\<rparr>,
     \<lparr>n_id = ''upf-001'', n_type = ''UPF'', n_ip = ''10.0.3.1'', n_status = ''active''\<rparr>,
     \<lparr>n_id = ''pcf-001'', n_type = ''PCF'', n_ip = ''10.0.3.2'', n_status = ''active''\<rparr>]"

definition set_status :: "nat \<Rightarrow> string \<Rightarrow> node list \<Rightarrow> node list" where
  "set_status i st ns = ns[i := (ns ! i)\<lparr>n_status := st\<rparr>]"

section \<open>The alarm store (\<^verbatim>\<open>oam.py\<close>)\<close>

datatype AlarmSeverity = CRITICAL | MAJOR | MINOR | WARNING | INDETERMINATE | CLEARED

datatype AlarmType =
  COMMUNICATIONS | QUALITY_OF_SERVICE | PROCESSING_ERROR | EQUIPMENT | ENVIRONMENTAL | SECURITY

fun severity_name :: "AlarmSeverity \<Rightarrow> string" where
  "severity_name CRITICAL = ''CRITICAL''"
| "severity_name MAJOR = ''MAJOR''"
| "severity_name MINOR = ''MINOR''"
| "severity_name WARNING = ''WARNING''"
| "severity_name INDETERMINATE = ''INDETERMINATE''"
| "severity_name CLEARED = ''CLEARED''"

fun alarm_type_name :: "AlarmType \<Rightarrow> string" where
  "alarm_type_name COMMUNICATIONS = ''COMMUNICATIONS''"
| "alarm_type_name QUALITY_OF_SERVICE = ''QUALITY_OF_SERVICE''"
| "alarm_type_name PROCESSING_ERROR = ''PROCESSING_ERROR''"
| "alarm_type_name EQUIPMENT = ''EQUIPMENT''"
| "alarm_type_name ENVIRONMENTAL = ''ENVIRONMENTAL''"
| "alarm_type_name SECURITY = ''SECURITY''"

text \<open>An alarm dictionary; the key \<^verbatim>\<open>cleared_time\<close> is absent until the alarm is cleared.\<close>

record alarm =
  a_id :: int
  a_node_id :: string
  a_type :: string
  a_severity :: string
  a_description :: string
  a_raised_time :: string
  a_status :: string
  a_cleared_time :: "string option"

text \<open>
  The state of an \<^verbatim>\<open>OAMAutomation\<close> object.  The dictionary \<^verbatim>\<open>alarms\<close> is an association
  list in insertion order; a Python dictionary has each key once.
\<close>

record oam_state =
  oam_running :: bool
  alarms :: "(int \<times> alarm) list"
  alarm_id_counter :: int
  oam_network_nodes :: "node list"

definition fault_gen_interval :: real where
  "fault_gen_interval = 300"

definition oam_init :: oam_state where
  "oam_init = \<lparr>oam_running = False, alarms = [], alarm_id_counter = 1,
               oam_network_nodes = initial_nodes\<rparr>"

definition create_alarm ::
  "string \<Rightarrow> AlarmType \<Rightarrow> AlarmSeverity \<Rightarrow> string \<Rightarrow> world \<Rightarrow> oam_state \<Rightarrow> int \<times> world \<times> oam_state"
where
  "create_alarm node_id alarm_type severity description w s =
     (let alarm_id = alarm_id_counter s;
          s1 = s\<lparr>alarm_id_counter := alarm_id_counter s + 1\<rparr>;
          (t, w1) = now_iso w;
          alarm = \<lparr>a_id = alarm_id, a_node_id = node_id, a_type = alarm_type_name alarm_type,
                   a_severity = severity_name severity, a_description = description,
                   a_raised_time = t, a_status = ''active'', a_cleared_time = None\<rparr>
      in (alarm_id, w1, s1\<lparr>alarms := AList.update alarm_id alarm (alarms s1)\<rparr>))"

definition clear_alarm :: "int \<Rightarrow> world \<Rightarrow> oam_state \<Rightarrow> bool \<times> world \<times> oam_state" where
  "clear_alarm alarm_id w s =
     (case map_of (alarms s) alarm_id of
        Some alarm \<Rightarrow>
          (let (t, w1) = now_iso w;
               alarm1 = alarm\<lparr>a_status := ''cleared'', a_cleared_time := Some t\<rparr>
           in (True, w1, s\<lparr>alarms := AList.update alarm_id alarm1 (alarms s)\<rparr>))
      | None \<Rightarrow> (False, w, s))"

record oam_status =
  st_status :: string
  st_active_alarms :: nat
  st_network_nodes :: nat
  st_healthy_nodes :: nat

definition get_status :: "oam_state \<Rightarrow> oam_status" where
  "get_status s =
     \<lparr>st_status = (if oam_running s then ''running'' else ''stopped''),
      st_active_alarms = length (alarms s),
      st_network_nodes = length (oam_network_nodes s),
      st_healthy_nodes = length [node \<leftarrow> oam_network_nodes s. n_status node = ''active'']\<rparr>"

definition get_alarms :: "string option \<Rightarrow> oam_state \<Rightarrow> (int \<times> alarm) list" where
  "get_alarms filter_status s =
     (case filter_status of
        None \<Rightarrow> alarms s
      | Some f \<Rightarrow> if f = [] then alarms s else [(k, v) \<leftarrow> alarms s. a_status v = f])"

subsection \<open>One pass of the fault-generation loop\<close>

definition fault_types :: "(string \<times> real) list" where
  "fault_types =
     [(''node_down'', 0.05), (''service_timeout'', 0.1), (''memory_overflow'', 0.07),
      (''connection_failure'', 0.15), (''authentication_failure'', 0.03)]"

text \<open>The body of the innermost \<^verbatim>\<open>if\<close>: one fault of kind \<open>ft\<close> on the node at index \<open>i\<close>.\<close>

definition generate_fault :: "nat \<Rightarrow> string \<Rightarrow> world \<Rightarrow> oam_state \<Rightarrow> world \<times> oam_state" where
  "generate_fault i ft w s =
     (let nid = n_id (oam_network_nodes s ! i) in
      if ft = ''node_down'' then
        (let s1 = s\<lparr>oam_network_nodes := set_status i ''down'' (oam_network_nodes s)\<rparr>
         in snd (create_alarm nid EQUIPMENT CRITICAL (''Node '' @ nid @ '' is down'') w s1))
      else if ft = ''service_timeout'' then
        snd (create_alarm nid QUALITY_OF_SERVICE MAJOR (''Service timeout on '' @ nid) w s)
      else if ft = ''memory_overflow'' then
        snd (create_alarm nid PROCESSING_ERROR MAJOR (''Memory overflow on '' @ nid) w s)
      else if ft = ''connection_failure'' then
        snd (create_alarm nid COMMUNICATIONS MINOR (''Connection failure on '' @ nid) w s)
      else if ft = ''authentication_failure'' then
        snd (create_alarm nid SECURITY WARNING (''Authentication failure on '' @ nid) w s)
      else (w, s))"

fun faults_for_node ::
  "nat \<Rightarrow> (string \<times> real) list \<Rightarrow> world \<Rightarrow> oam_state \<Rightarrow> world \<times> oam_state" where
  "faults_for_node i [] w s = (w, s)"
| "faults_for_node i (fault # rest) w s =
     (if fst (py_random w) < snd fault
      then (case generate_fault i (fst fault) (snd (py_random w)) s of
              (w2, s2) \<Rightarrow> faults_for_node i rest w2 s2)
      else faults_for_node i rest (snd (py_random w)) s)"

fun faults_for_nodes :: "nat list \<Rightarrow> world \<Rightarrow> oam_state \<Rightarrow> world \<times> oam_state" where
  "faults_for_nodes [] w s = (w, s)"
| "faults_for_nodes (i # is) w s =
     (case faults_for_node i fault_types w s of (w1, s1) \<Rightarrow> faults_for_nodes is w1 s1)"

text \<open>
  The loop over \<^verbatim>\<open>list(self.alarms.items())\<close> of a recovering node: the snapshot is walked
  in order and every entry of that node with the literal description is cleared.
\<close>

fun clear_matching ::
  "string \<Rightarrow> (int \<times> alarm) list \<Rightarrow> world \<Rightarrow> oam_state \<Rightarrow> world \<times> oam_state" where
  "clear_matching nid [] w s = (w, s)"
| "clear_matching nid (entry # rest) w s =
     (if a_node_id (snd entry) = nid \<and> a_description (snd entry) = ''Node '' @ nid @ '' is down''
      then (case clear_alarm (fst entry) w s of (ok, w1, s1) \<Rightarrow> clear_matching nid rest w1 s1)
      else clear_matching nid rest w s)"

text \<open>The body run for a node that recovers: status back to active, then the clearing loop.\<close>

definition recover_node :: "nat \<Rightarrow> world \<Rightarrow> oam_state \<Rightarrow> world \<times> oam_state" where
  "recover_node i w s =
     (let s1 = s\<lparr>oam_network_nodes := set_status i ''active'' (oam_network_nodes s)\<rparr>
      in clear_matching (n_id (oam_network_nodes s1 ! i)) (alarms s1) w s1)"

fun recover_nodes :: "nat list \<Rightarrow> world \<Rightarrow> oam_state \<Rightarrow> world \<times> oam_state" where
  "recover_nodes [] w s = (w, s)"
| "recover_nodes (i # is) w s =
     (if n_status (oam_network_nodes s ! i) = ''down''
      then (if fst (py_random w) < 0.3
            then (case recover_node i (snd (py_random w)) s of
                    (w1, s1) \<Rightarrow> recover_nodes is w1 s1)
            else recover_nodes is (snd (py_random w)) s)
      else recover_nodes is w s)"

definition fault_generation_tick :: "world \<Rightarrow> oam_state \<Rightarrow> world \<times> oam_state" where
  "fault_generation_tick w s =
     (case faults_for_nodes [0..<length (oam_network_nodes s)] w s of
        (w1, s1) \<Rightarrow>
          (case recover_nodes [0..<length (oam_network_nodes s1)] w1 s1 of
             (w2, s2) \<Rightarrow> (py_sleep fault_gen_interval w2, s2)))"

text \<open>
  The states an \<^verbatim>\<open>OAMAutomation\<close> object can be in: the constructor's state, closed under
  the operations that write the alarm store.  The health-check and log-scan loops write the
  store through \<^verbatim>\<open>_create_alarm\<close> only, which the rule \<open>create\<close> covers for any arguments.
\<close>

inductive oam_reachable :: "oam_state \<Rightarrow> bool" where
  init: "oam_reachable oam_init"
| create: "oam_reachable s \<Longrightarrow> oam_reachable (snd (snd (create_alarm nid ty sev d w s)))"
| clear: "oam_reachable s \<Longrightarrow> oam_reachable (snd (snd (clear_alarm k w s)))"
| tick: "oam_reachable s \<Longrightarrow> oam_reachable (snd (fault_generation_tick w s))"

definition oam_inv :: "oam_state \<Rightarrow> bool" where
  "oam_inv s =
     (distinct (map fst (alarms s)) \<and> fst ` set (alarms s) = {1..<alarm_id_counter s} \<and>
      1 \<le> alarm_id_counter s)"

definition down_description :: "string \<Rightarrow> string" where
  "down_description nid = ''Node '' @ nid @ '' is down''"

definition mark_cleared :: "string \<Rightarrow> alarm \<Rightarrow> alarm" where
  "mark_cleared t a = a\<lparr>a_status := ''cleared'', a_cleared_time := Some t\<rparr>"

text \<open>Two stores of the example runs below.\<close>

definition example_world :: world where
  "example_world =
     \<lparr>rand = sconst 0,
      clock = ''2024-01-01T00:00:00'' ## ''2024-01-01T00:05:00'' ## sconst ''2024-01-01T00:10:00'',
      slept = []\<rparr>"

definition example_store :: oam_state where
  "example_store =
     oam_init\<lparr>alarm_id_counter := 3,
       alarms :=
         [(1, \<lparr>a_id = 1, a_node_id = ''gnb-001'', a_type = ''EQUIPMENT'', a_severity = ''CRITICAL'',
               a_description = ''Node gnb-001 is down'', a_raised_time = ''2023-12-31T23:00:00'',
               a_status = ''active'', a_cleared_time = None\<rparr>),
          (2, \<lparr>a_id = 2, a_node_id = ''gnb-001'', a_type = ''PROCESSING_ERROR'',
               a_severity = ''MAJOR'', a_description = ''High CPU usage: 91.2%'',
               a_raised_time = ''2023-12-31T23:30:00'', a_status = ''active'',
               a_cleared_time = None\<rparr>)],
       oam_network_nodes := set_status 0 ''down'' initial_nodes\<rparr>"

text \<open>An alarm raised at the first clock reading and cleared twice, at the next two.\<close>

definition second_clear_example ::
  "bool \<times> bool \<times> (string \<times> string option) list \<times> (string \<times> string option) list" where
  "second_clear_example =
     (case create_alarm ''gnb-001'' EQUIPMENT CRITICAL ''Node gnb-001 is down'' example_world
             oam_init of
        (k, w1, s1) \<Rightarrow>
          (case clear_alarm k w1 s1 of
             (ok1, w2, s2) \<Rightarrow>
               (case clear_alarm k w2 s2 of
                  (ok2, w3, s3) \<Rightarrow>
                    (ok1, ok2,
                     map (\<lambda>e. (a_status (snd e), a_cleared_time (snd e))) (alarms s2),
                     map (\<lambda>e. (a_status (snd e), a_cleared_time (snd e))) (alarms s3)))))"

section \<open>The KPI store and the threshold evaluation (\<^verbatim>\<open>kpi.py\<close>)\<close>

record kpi_def =
  k_id :: string
  k_name :: string
  k_description :: string
  k_unit :: string
  k_target :: real
  k_warning_threshold :: real
  k_critical_threshold :: real
  k_category :: string

definition kpi_definitions :: "kpi_def list" where
  "kpi_definitions =
    [\<lparr>k_id = ''node_availability'', k_name = ''Node Availability'',
      k_description = ''Percentage of time a node is available'', k_unit = ''%'',
      k_target = 99.99, k_warning_threshold = 99.9, k_critical_threshold = 99.5,
      k_category = ''availability''\<rparr>,
     \<lparr>k_id = ''service_latency'', k_name = ''Service Latency'',
      k_description = ''Average latency for service requests'', k_unit = ''ms'',
      k_target = 50, k_warning_threshold = 100, k_critical_threshold = 200,
      k_category = ''performance''\<rparr>,
     \<lparr>k_id = ''error_rate'', k_name = ''Error Rate'',
      k_description = ''Percentage of requests resulting in errors'', k_unit = ''%'',
      k_target = 0.1, k_warning_threshold = 1.0, k_critical_threshold = 5.0,
      k_category = ''quality''\<rparr>,
     \<lparr>k_id = ''cpu_utilization'', k_name = ''CPU Utilization'',
      k_description = ''Average CPU utilization of nodes'', k_unit = ''%'',
      k_target = 60, k_warning_threshold = 80, k_critical_threshold = 90,
      k_category = ''resource''\<rparr>,
     \<lparr>k_id = ''memory_utilization'', k_name = ''Memory Utilization'',
      k_description = ''Average memory utilization of nodes'', k_unit = ''%'',
      k_target = 70, k_warning_threshold = 85, k_critical_threshold = 95,
      k_category = ''resource''\<rparr>,
     \<lparr>k_id = ''throughput'', k_name = ''Network Throughput'',
      k_description = ''Average network throughput'', k_unit = ''Mbps'',
      k_target = 1000, k_warning_threshold = 500, k_critical_threshold = 100,
      k_category = ''performance''\<rparr>,
     \<lparr>k_id = ''connection_success_rate'', k_name = ''Connection Success Rate'',
      k_description = ''Percentage of successful connection attempts'', k_unit = ''%'',
      k_target = 99.9, k_warning_threshold = 99.0, k_critical_threshold = 95.0,
      k_category = ''quality''\<rparr>,
     \<lparr>k_id = ''recovery_time'', k_name = ''Recovery Time'',
      k_description = ''Average time to recover from failures'', k_unit = ''seconds'',
      k_target = 30, k_warning_threshold = 60, k_critical_threshold = 300,
      k_category = ''availability''\<rparr>]"

record sample =
  s_timestamp :: string
  s_value :: real

text \<open>
  \<^verbatim>\<open>kpi_data\<close>: a dictionary from KPI id to a \<^verbatim>\<open>defaultdict\<close> from node id to a
  \<^verbatim>\<open>deque(maxlen=1000)\<close>, both in insertion order.
\<close>

type_synonym node_windows = "(string \<times> sample list) list"
type_synonym kpi_store = "(string \<times> node_windows) list"

record kpi_state =
  kpi_running :: bool
  kpi_data :: kpi_store
  kpi_network_nodes :: "node list"

definition kpi_init :: kpi_state where
  "kpi_init = \<lparr>kpi_running = False, kpi_data = map (\<lambda>kpi. (k_id kpi, [])) kpi_definitions,
               kpi_network_nodes = initial_nodes\<rparr>"

definition maxlen :: nat where
  "maxlen = 1000"

text \<open>\<^verbatim>\<open>deque.append\<close> of a bounded deque: the item goes to the right end, and a deque that
  has grown beyond \<^verbatim>\<open>maxlen\<close> gives up its leftmost item.\<close>

definition deque_append :: "'a list \<Rightarrow> 'a \<Rightarrow> 'a list" where
  "deque_append d x = (let d1 = d @ [x] in if length d1 > maxlen then tl d1 else d1)"

definition bind_err :: "'e + 'a \<Rightarrow> ('a \<Rightarrow> 'e + 'b) \<Rightarrow> 'e + 'b" where
  "bind_err m f = (case m of Inl e \<Rightarrow> Inl e | Inr x \<Rightarrow> f x)"

text \<open>
  The statement \<^verbatim>\<open>self.kpi_data[kpi_id][node_id].append(smp)\<close>: a missing KPI id raises
  \<^verbatim>\<open>KeyError\<close>, a missing node id gets a fresh empty deque first.
\<close>

definition append_sample :: "string \<Rightarrow> string \<Rightarrow> sample \<Rightarrow> kpi_store \<Rightarrow> py_error + kpi_store" where
  "append_sample kpi_id node_id smp data =
     (case map_of data kpi_id of
        None \<Rightarrow> Inl KeyError
      | Some node_data \<Rightarrow>
          Inr (AList.update kpi_id
                 (AList.update node_id
                    (deque_append (case map_of node_data node_id of None \<Rightarrow> [] | Some d \<Rightarrow> d) smp)
                    node_data)
                 data))"

definition collect_node_kpis :: "node \<Rightarrow> world \<Rightarrow> kpi_state \<Rightarrow> py_error + world \<times> kpi_state" where
  "collect_node_kpis node w s =
     (let node_id = n_id node;
          (timestamp, w0) = now_iso w;
          availability = (if n_status node = ''active'' then 100.0 else 0.0)
      in
      bind_err (append_sample ''node_availability'' node_id
                  \<lparr>s_timestamp = timestamp, s_value = availability\<rparr> (kpi_data s)) (\<lambda>d1.
      let (cpu_util, w1) = py_uniform 20 95 w0 in
      bind_err (append_sample ''cpu_utilization'' node_id
                  \<lparr>s_timestamp = timestamp, s_value = cpu_util\<rparr> d1) (\<lambda>d2.
      let (memory_util, w2) = py_uniform 30 90 w1 in
      bind_err (append_sample ''memory_utilization'' node_id
                  \<lparr>s_timestamp = timestamp, s_value = memory_util\<rparr> d2) (\<lambda>d3.
      let (latency, w3) = py_uniform 10 200 w2 in
      bind_err (append_sample ''service_latency'' node_id
                  \<lparr>s_timestamp = timestamp, s_value = latency\<rparr> d3) (\<lambda>d4.
      let (error_rate, w4) = py_uniform 0 10 w3 in
      bind_err (append_sample ''error_rate'' node_id
                  \<lparr>s_timestamp = timestamp, s_value = error_rate\<rparr> d4) (\<lambda>d5.
      let (throughput, w5) = py_uniform 100 2000 w4 in
      bind_err (append_sample ''throughput'' node_id
                  \<lparr>s_timestamp = timestamp, s_value = throughput\<rparr> d5) (\<lambda>d6.
      let (success_rate, w6) = py_uniform 90 100 w5 in
      bind_err (append_sample ''connection_success_rate'' node_id
                  \<lparr>s_timestamp = timestamp, s_value = success_rate\<rparr> d6) (\<lambda>d7.
      if n_status node = ''active'' then
        (let (r, w7) = py_random w6 in
         if r < 0.1 then
           (let (recovery_time, w8) = py_uniform 10 500 w7 in
            bind_err (append_sample ''recovery_time'' node_id
                        \<lparr>s_timestamp = timestamp, s_value = recovery_time\<rparr> d7) (\<lambda>d8.
            Inr (w8, s\<lparr>kpi_data := d8\<rparr>)))
         else Inr (w7, s\<lparr>kpi_data := d7\<rparr>))
      else Inr (w6, s\<lparr>kpi_data := d7\<rparr>)))))))))"

text \<open>The loop \<^verbatim>\<open>for node in self.network_nodes: self._collect_node_kpis(node)\<close>.\<close>

fun collect_all :: "node list \<Rightarrow> world \<Rightarrow> kpi_state \<Rightarrow> py_error + world \<times> kpi_state" where
  "collect_all [] w s = Inr (w, s)"
| "collect_all (node # rest) w s =
     bind_err (collect_node_kpis node w s) (\<lambda>(w1, s1). collect_all rest w1 s1)"

subsection \<open>Threshold evaluation\<close>

record issue =
  i_node_id :: string
  i_kpi_id :: string
  i_kpi_name :: string
  i_value :: real
  i_unit :: string
  i_severity :: string
  i_timestamp :: string

text \<open>The two comparison chains of \<^verbatim>\<open>_analyze_kpi_data\<close>, selected by the category.\<close>

definition severity_of :: "kpi_def \<Rightarrow> real \<Rightarrow> string" where
  "severity_of kpi v =
     (if k_category kpi \<in> set [''availability'', ''quality''] then
        (if v < k_critical_threshold kpi then ''CRITICAL''
         else if v < k_warning_threshold kpi then ''WARNING''
         else ''OK'')
      else
        (if v > k_critical_threshold kpi then ''CRITICAL''
         else if v > k_warning_threshold kpi then ''WARNING''
         else ''OK''))"

definition issue_of :: "kpi_def \<Rightarrow> string \<Rightarrow> sample \<Rightarrow> issue" where
  "issue_of kpi node_id latest =
     \<lparr>i_node_id = node_id, i_kpi_id = k_id kpi, i_kpi_name = k_name kpi,
      i_value = s_value latest, i_unit = k_unit kpi,
      i_severity = severity_of kpi (s_value latest), i_timestamp = s_timestamp latest\<rparr>"

fun analyze_nodes :: "kpi_def \<Rightarrow> node_windows \<Rightarrow> issue list \<Rightarrow> issue list" where
  "analyze_nodes kpi [] issues = issues"
| "analyze_nodes kpi (entry # rest) issues =
     (if snd entry = [] then analyze_nodes kpi rest issues
      else if severity_of kpi (s_value (last (snd entry))) \<noteq> ''OK''
      then analyze_nodes kpi rest (issues @ [issue_of kpi (fst entry) (last (snd entry))])
      else analyze_nodes kpi rest issues)"

fun analyze_kpis :: "kpi_def list \<Rightarrow> kpi_store \<Rightarrow> issue list \<Rightarrow> py_error + issue list" where
  "analyze_kpis [] data issues = Inr issues"
| "analyze_kpis (kpi # rest) data issues =
     (case map_of data (k_id kpi) of
        None \<Rightarrow> Inl KeyError
      | Some node_data \<Rightarrow> analyze_kpis rest data (analyze_nodes kpi node_data issues))"

definition analyze_kpi_data :: "kpi_state \<Rightarrow> py_error + issue list" where
  "analyze_kpi_data s = analyze_kpis kpi_definitions (kpi_data s) []"

definition windows_bounded :: "kpi_store \<Rightarrow> bool" where
  "windows_bounded data = list_all (\<lambda>e. list_all (\<lambda>nd. length (snd nd) \<le> maxlen) (snd e)) data"

text \<open>A store whose only window is full, and a store with three fresh samples.\<close>

definition full_store :: kpi_store where
  "full_store =
     [(''cpu_utilization'',
       [(''gnb-001'',
         \<lparr>s_timestamp = ''2024-01-01T00:00:00'', s_value = 50\<rparr> #
         replicate 999 \<lparr>s_timestamp = ''2024-01-01T00:01:00'', s_value = 60\<rparr>)])]"

definition example_kpi_state :: kpi_state where
  "example_kpi_state =
     kpi_init\<lparr>kpi_data :=
       [(''node_availability'',
           [(''gnb-001'', [\<lparr>s_timestamp = ''2024-01-01T00:00:00'', s_value = 99.4\<rparr>])]),
        (''service_latency'', []),
        (''error_rate'', []),
        (''cpu_utilization'',
           [(''gnb-001'', [\<lparr>s_timestamp = ''2024-01-01T00:00:00'', s_value = 82\<rparr>]),
            (''gnb-002'', [\<lparr>s_timestamp = ''2024-01-01T00:00:00'', s_value = 75\<rparr>])]),
        (''memory_utilization'', []),
        (''throughput'', []),
        (''connection_success_rate'', []),
        (''recovery_time'', [])]\<rparr>"

subsection \<open>Queries on the KPI store\<close>

text \<open>
  Truth values of optional arguments as Python's \<^verbatim>\<open>if x:\<close> takes them: \<^verbatim>\<open>None\<close>, the empty
  string and zero are false.
\<close>

definition truthy_str :: "string option \<Rightarrow> bool" where
  "truthy_str v = (case v of None \<Rightarrow> False | Some x \<Rightarrow> x \<noteq> [])"

definition truthy_num :: "real option \<Rightarrow> bool" where
  "truthy_num v = (case v of None \<Rightarrow> False | Some x \<Rightarrow> x \<noteq> 0)"

text \<open>
  The time filter of one window.  The parameter \<open>iso_minus\<close> stands for the date arithmetic
  of the standard library: \<open>iso_minus t r\<close> is the ISO-8601 text of the instant \<open>r\<close> seconds
  before the instant whose ISO-8601 text is \<open>t\<close>.  The comparison \<open>\<le>\<close> on strings is the
  lexicographic order of the character codes, as Python compares \<^verbatim>\<open>str\<close> values.
\<close>

definition filter_points ::
  "(string \<Rightarrow> real \<Rightarrow> string) \<Rightarrow> real option \<Rightarrow> sample list \<Rightarrow> world \<Rightarrow> sample list \<times> world"
where
  "filter_points iso_minus time_range data_points w =
     (case time_range of
        None \<Rightarrow> (data_points, w)
      | Some r \<Rightarrow>
          if r = 0 then (data_points, w)
          else (case now_iso w of
                  (now, w1) \<Rightarrow>
                    ([dp \<leftarrow> data_points. iso_minus now r \<le> s_timestamp dp], w1)))"

text \<open>
  The inner loop \<^verbatim>\<open>for node_id, data_points in filtered_node_data.items()\<close>.  Its loop
  variable is the function's parameter \<^verbatim>\<open>node_id\<close>, so the value it has after the loop is
  returned together with the entries collected for the current KPI.
\<close>

fun get_kpi_windows ::
  "(string \<Rightarrow> real \<Rightarrow> string) \<Rightarrow> real option \<Rightarrow> node_windows \<Rightarrow> world \<Rightarrow> string option \<Rightarrow>
   node_windows \<Rightarrow> world \<times> string option \<times> node_windows" where
  "get_kpi_windows iso_minus time_range [] w node_id res = (w, node_id, res)"
| "get_kpi_windows iso_minus time_range (entry # rest) w node_id res =
     (case filter_points iso_minus time_range (snd entry) w of
        (filtered_data, w1) \<Rightarrow>
          get_kpi_windows iso_minus time_range rest w1 (Some (fst entry))
            (if filtered_data \<noteq> [] then AList.update (fst entry) filtered_data res else res))"

text \<open>The outer loop \<^verbatim>\<open>for kpi_id, node_data in kpi_data.items()\<close>.\<close>

fun get_kpi_entries ::
  "(string \<Rightarrow> real \<Rightarrow> string) \<Rightarrow> real option \<Rightarrow> kpi_store \<Rightarrow> world \<Rightarrow> string option \<Rightarrow>
   kpi_store \<Rightarrow> world \<times> kpi_store" where
  "get_kpi_entries iso_minus time_range [] w node_id result = (w, result)"
| "get_kpi_entries iso_minus time_range (entry # rest) w node_id result =
     (if truthy_str node_id then
        (case map_of (snd entry) (case node_id of None \<Rightarrow> [] | Some n \<Rightarrow> n) of
           None \<Rightarrow>
             get_kpi_entries iso_minus time_range rest w node_id
               (AList.update (fst entry) [] result)
         | Some d \<Rightarrow>
             (case get_kpi_windows iso_minus time_range
                     [(case node_id of None \<Rightarrow> [] | Some n \<Rightarrow> n, d)] w node_id [] of
                (w1, node_id1, res) \<Rightarrow>
                  get_kpi_entries iso_minus time_range rest w1 node_id1
                    (AList.update (fst entry) res (AList.update (fst entry) [] result))))
      else
        (case get_kpi_windows iso_minus time_range (snd entry) w node_id [] of
           (w1, node_id1, res) \<Rightarrow>
             get_kpi_entries iso_minus time_range rest w1 node_id1
               (AList.update (fst entry) res (AList.update (fst entry) [] result))))"

definition get_kpi_data ::
  "(string \<Rightarrow> real \<Rightarrow> string) \<Rightarrow> string option \<Rightarrow> string option \<Rightarrow> real option \<Rightarrow> world \<Rightarrow>
   kpi_state \<Rightarrow> world \<times> kpi_store" where
  "get_kpi_data iso_minus kpi_id node_id time_range w s =
     (if truthy_str kpi_id then
        (case map_of (kpi_data s) (case kpi_id of None \<Rightarrow> [] | Some k \<Rightarrow> k) of
           None \<Rightarrow> (w, [])
         | Some node_data \<Rightarrow>
             get_kpi_entries iso_minus time_range
               [(case kpi_id of None \<Rightarrow> [] | Some k \<Rightarrow> k, node_data)] w node_id [])
      else get_kpi_entries iso_minus time_range (kpi_data s) w node_id [])"

section \<open>The event orchestrator (\<^verbatim>\<open>event.py\<close>)\<close>

datatype EventType =
  NODE_FAILURE | SERVICE_FAILURE | NETWORK_CONGESTION | SECURITY_BREACH | RESOURCE_EXHAUSTION |
  CONFIGURATION_CHANGE | FAILOVER | RECOVERY

fun event_type_name :: "EventType \<Rightarrow> string" where
  "event_type_name NODE_FAILURE = ''NODE_FAILURE''"
| "event_type_name SERVICE_FAILURE = ''SERVICE_FAILURE''"
| "event_type_name NETWORK_CONGESTION = ''NETWORK_CONGESTION''"
| "event_type_name SECURITY_BREACH = ''SECURITY_BREACH''"
| "event_type_name RESOURCE_EXHAUSTION = ''RESOURCE_EXHAUSTION''"
| "event_type_name CONFIGURATION_CHANGE = ''CONFIGURATION_CHANGE''"
| "event_type_name FAILOVER = ''FAILOVER''"
| "event_type_name RECOVERY = ''RECOVERY''"

definition all_event_types :: "EventType list" where
  "all_event_types =
     [NODE_FAILURE, SERVICE_FAILURE, NETWORK_CONGESTION, SECURITY_BREACH, RESOURCE_EXHAUSTION,
      CONFIGURATION_CHANGE, FAILOVER, RECOVERY]"

text \<open>The values that occur in the \<^verbatim>\<open>details\<close> payload of an event.\<close>

datatype pyval =
  PStr string | PInt int | PFloat real | PBool bool | PDict "(string \<times> pyval) list"

text \<open>
  An event dictionary.  Generated events carry \<^verbatim>\<open>target_node\<close>, the two load-test events
  carry \<^verbatim>\<open>target_nodes\<close> instead; an absent key is \<open>None\<close>.
\<close>

record event =
  e_id :: int
  e_type :: string
  e_target_node :: "string option"
  e_target_type :: string
  e_target_nodes :: "string list option"
  e_timestamp :: string
  e_details :: "(string \<times> pyval) list"

record event_spec =
  es_type :: EventType
  es_target_type :: string
  es_probability :: real

record scenario =
  sc_name :: string
  sc_description :: string
  sc_events :: "event_spec list"

definition scenarios :: "scenario list" where
  "scenarios =
    [\<lparr>sc_name = ''AMF Failover'',
      sc_description = ''Simulate AMF node failure and failover to backup'',
      sc_events =
        [\<lparr>es_type = NODE_FAILURE, es_target_type = ''AMF'', es_probability = 1.0\<rparr>,
         \<lparr>es_type = FAILOVER, es_target_type = ''AMF'', es_probability = 0.9\<rparr>,
         \<lparr>es_type = RECOVERY, es_target_type = ''AMF'', es_probability = 0.8\<rparr>]\<rparr>,
     \<lparr>sc_name = ''Network Congestion'',
      sc_description = ''Simulate network congestion affecting multiple nodes'',
      sc_events =
        [\<lparr>es_type = NETWORK_CONGESTION, es_target_type = ''ALL'', es_probability = 1.0\<rparr>,
         \<lparr>es_type = SERVICE_FAILURE, es_target_type = ''UPF'', es_probability = 0.7\<rparr>,
         \<lparr>es_type = RECOVERY, es_target_type = ''ALL'', es_probability = 0.9\<rparr>]\<rparr>,
     \<lparr>sc_name = ''Resource Exhaustion'',
      sc_description = ''Simulate resource exhaustion on a node'',
      sc_events =
        [\<lparr>es_type = RESOURCE_EXHAUSTION, es_target_type = ''SMF'', es_probability = 1.0\<rparr>,
         \<lparr>es_type = SERVICE_FAILURE, es_target_type = ''SMF'', es_probability = 0.8\<rparr>,
         \<lparr>es_type = RECOVERY, es_target_type = ''SMF'', es_probability = 0.9\<rparr>]\<rparr>,
     \<lparr>sc_name = ''Security Incident'',
      sc_description = ''Simulate a security breach and response'',
      sc_events =
        [\<lparr>es_type = SECURITY_BREACH, es_target_type = ''PCF'', es_probability = 1.0\<rparr>,
         \<lparr>es_type = CONFIGURATION_CHANGE, es_target_type = ''PCF'', es_probability = 0.9\<rparr>,
         \<lparr>es_type = RECOVERY, es_target_type = ''PCF'', es_probability = 0.95\<rparr>]\<rparr>,
     \<lparr>sc_name = ''Multiple Node Failure'',
      sc_description = ''Simulate multiple node failures and recovery'',
      sc_events =
        [\<lparr>es_type = NODE_FAILURE, es_target_type = ''gNB'', es_probability = 1.0\<rparr>,
         \<lparr>es_type = NODE_FAILURE, es_target_type = ''UPF'', es_probability = 0.8\<rparr>,
         \<lparr>es_type = FAILOVER, es_target_type = ''gNB'', es_probability = 0.9\<rparr>,
         \<lparr>es_type = FAILOVER, es_target_type = ''UPF'', es_probability = 0.7\<rparr>,
         \<lparr>es_type = RECOVERY, es_target_type = ''gNB'', es_probability = 0.95\<rparr>,
         \<lparr>es_type = RECOVERY, es_target_type = ''UPF'', es_probability = 0.9\<rparr>]\<rparr>]"

text \<open>The state of an \<^verbatim>\<open>EventSimulator\<close> object; \<^verbatim>\<open>scenarios\<close> is never assigned again.\<close>

record evt_state =
  evt_running :: bool
  events :: "event list"
  evt_network_nodes :: "node list"

definition evt_init :: evt_state where
  "evt_init = \<lparr>evt_running = False, events = [], evt_network_nodes = initial_nodes\<rparr>"

text \<open>Decimal text of a natural number, for \<^verbatim>\<open>f"CHG-{n}"\<close>.\<close>

fun decimal :: "nat \<Rightarrow> string" where
  "decimal n =
     (if n < 10 then [char_of (48 + n)] else decimal (n div 10) @ [char_of (48 + n mod 10)])"

declare decimal.simps [simp del]

text \<open>
  The type-specific part of \<^verbatim>\<open>_generate_event\<close>: the payload, drawn field by field in the
  order of the dictionary display, and the status change of the target node, the node at
  index \<open>i\<close> of \<^verbatim>\<open>network_nodes\<close>.
\<close>

fun event_details ::
  "EventType \<Rightarrow> nat \<Rightarrow> world \<Rightarrow> evt_state \<Rightarrow> (string \<times> pyval) list \<times> world \<times> evt_state" where
  "event_details NODE_FAILURE i w s =
     (case py_choice [''Hardware failure'', ''Software crash'', ''Power outage'',
                      ''Network connectivity loss''] w of
        (reason, w1) \<Rightarrow>
          (case py_choice [''Critical'', ''Major'', ''Minor''] w1 of
             (sev, w2) \<Rightarrow>
               ([(''failure_reason'', PStr reason), (''severity'', PStr sev)], w2,
                s\<lparr>evt_network_nodes := set_status i ''down'' (evt_network_nodes s)\<rparr>)))"
| "event_details SERVICE_FAILURE i w s =
     (case py_choice [''Authentication'', ''Session Management'', ''Policy Control'',
                      ''User Plane''] w of
        (service, w1) \<Rightarrow>
          (case py_choice [''Timeout'', ''Internal error'', ''Dependency failure'',
                           ''Resource constraint''] w1 of
             (reason, w2) \<Rightarrow>
               (case py_randint 10 1000 w2 of
                  (users, w3) \<Rightarrow>
                    ([(''service_name'', PStr service), (''failure_reason'', PStr reason),
                      (''affected_users'', PInt users)], w3, s))))"
| "event_details NETWORK_CONGESTION i w s =
     (case py_uniform 70 100 w of
        (level, w1) \<Rightarrow>
          (case py_choice [''N1'', ''N2'', ''N3'', ''N4'', ''N6'', ''All''] w1 of
             (ifaces, w2) \<Rightarrow>
               (case py_randint 30 300 w2 of
                  (dur, w3) \<Rightarrow>
                    ([(''congestion_level'', PFloat level), (''affected_interfaces'', PStr ifaces),
                      (''duration_seconds'', PInt dur)], w3, s))))"
| "event_details SECURITY_BREACH i w s =
     (case py_choice [''Unauthorized access'', ''Authentication bypass'', ''DDoS attack'',
                      ''Data exfiltration''] w of
        (breach, w1) \<Rightarrow>
          (case py_choice [''Critical'', ''Major'', ''Minor''] w1 of
             (sev, w2) \<Rightarrow>
               (case py_randint 1 5 w2 of
                  (systems, w3) \<Rightarrow>
                    ([(''breach_type'', PStr breach), (''severity'', PStr sev),
                      (''affected_systems'', PInt systems)], w3, s))))"
| "event_details RESOURCE_EXHAUSTION i w s =
     (case py_choice [''CPU'', ''Memory'', ''Disk'', ''Network bandwidth'',
                      ''Connection pool''] w of
        (resource, w1) \<Rightarrow>
          (case py_uniform 90 100 w1 of
             (util, w2) \<Rightarrow>
               (case py_uniform 0 10 w2 of
                  (cap, w3) \<Rightarrow>
                    ([(''resource_type'', PStr resource), (''utilization'', PFloat util),
                      (''available_capacity'', PFloat cap)], w3, s))))"
| "event_details CONFIGURATION_CHANGE i w s =
     (case py_choice [''Parameter update'', ''Software upgrade'', ''Policy change'',
                      ''Security hardening''] w of
        (change, w1) \<Rightarrow>
          (case py_choice [''Planned maintenance'', ''Performance optimization'',
                           ''Security patch'', ''Bug fix''] w1 of
             (reason, w2) \<Rightarrow>
               (case py_randint 1000 9999 w2 of
                  (n, w3) \<Rightarrow>
                    ([(''change_type'', PStr change), (''change_reason'', PStr reason),
                      (''change_id'', PStr (''CHG-'' @ decimal (nat n)))], w3, s))))"
| "event_details FAILOVER i w s =
     (case py_choice [''Automatic'', ''Manual'', ''Scheduled''] w of
        (kind, w1) \<Rightarrow>
          (case py_randint 5 60 w1 of
             (dur, w2) \<Rightarrow>
               ([(''failover_target'', PStr (n_type (evt_network_nodes s ! i) @ ''-BACKUP'')),
                 (''failover_type'', PStr kind),
                 (''failover_duration_seconds'', PInt dur)], w2, s)))"
| "event_details RECOVERY i w s =
     (case py_choice [''Restart'', ''Failback'', ''Reconfiguration'',
                      ''Manual intervention''] w of
        (action, w1) \<Rightarrow>
          (case py_randint 10 300 w1 of
             (dur, w2) \<Rightarrow>
               (case py_random w2 of
                  (r, w3) \<Rightarrow>
                    ([(''recovery_action'', PStr action),
                      (''recovery_duration_seconds'', PInt dur),
                      (''success'', PBool (r < 0.9))], w3,
                     if r < 0.9
                     then s\<lparr>evt_network_nodes := set_status i ''active'' (evt_network_nodes s)\<rparr>
                     else s))))"

definition generate_event ::
  "EventType \<Rightarrow> nat \<Rightarrow> world \<Rightarrow> evt_state \<Rightarrow> event \<times> world \<times> evt_state" where
  "generate_event event_type i w s =
     (let event_id = int (length (events s)) + 1;
          target_node = evt_network_nodes s ! i
      in case now_iso w of
           (timestamp, w0) \<Rightarrow>
             (case event_details event_type i w0 s of
                (details, w1, s1) \<Rightarrow>
                  (let event = \<lparr>e_id = event_id, e_type = event_type_name event_type,
                                e_target_node = Some (n_id target_node),
                                e_target_type = n_type target_node, e_target_nodes = None,
                                e_timestamp = timestamp, e_details = details\<rparr>
                   in (event, w1, s1\<lparr>events := events s1 @ [event]\<rparr>))))"

text \<open>The indices of the nodes of a type; \<^verbatim>\<open>ALL\<close> selects the whole list.\<close>

definition nodes_of_type :: "string \<Rightarrow> node list \<Rightarrow> nat list" where
  "nodes_of_type t ns = [i \<leftarrow> [0..<length ns]. n_type (ns ! i) = t]"

definition scenario_targets :: "string \<Rightarrow> node list \<Rightarrow> nat list" where
  "scenario_targets t ns = (if t = ''ALL'' then [0..<length ns] else nodes_of_type t ns)"

text \<open>The loop of \<^verbatim>\<open>_run_scenario\<close> over the event definitions of the chosen scenario.\<close>

fun run_scenario_events :: "event_spec list \<Rightarrow> world \<Rightarrow> evt_state \<Rightarrow> world \<times> evt_state" where
  "run_scenario_events [] w s = (w, s)"
| "run_scenario_events (event_def # rest) w s =
     (if fst (py_random w) > es_probability event_def
      then run_scenario_events rest (snd (py_random w)) s
      else if scenario_targets (es_target_type event_def) (evt_network_nodes s) = []
      then run_scenario_events rest (snd (py_random w)) s
      else
        (case py_choice (scenario_targets (es_target_type event_def) (evt_network_nodes s))
                (snd (py_random w)) of
           (i, w2) \<Rightarrow>
             (case generate_event (es_type event_def) i w2 s of
                (e, w3, s3) \<Rightarrow>
                  (case py_uniform 1 5 w3 of
                     (pause, w4) \<Rightarrow> run_scenario_events rest (py_sleep pause w4) s3))))"

definition run_scenario :: "world \<Rightarrow> evt_state \<Rightarrow> world \<times> evt_state" where
  "run_scenario w s =
     (case py_choice scenarios w of
        (scenario, w1) \<Rightarrow> run_scenario_events (sc_events scenario) w1 s)"

text \<open>
  The loop of \<^verbatim>\<open>_generate_random_events\<close>; \<^verbatim>\<open>random.choice\<close> raises \<^verbatim>\<open>IndexError\<close> on an
  empty node list.
\<close>

fun random_events_loop :: "nat \<Rightarrow> world \<Rightarrow> evt_state \<Rightarrow> py_error + world \<times> evt_state" where
  "random_events_loop 0 w s = Inr (w, s)"
| "random_events_loop (Suc n) w s =
     (case py_choice all_event_types w of
        (event_type, w1) \<Rightarrow>
          if evt_network_nodes s = [] then Inl IndexError
          else
            (case py_choice [0..<length (evt_network_nodes s)] w1 of
               (i, w2) \<Rightarrow>
                 (case generate_event event_type i w2 s of
                    (e, w3, s3) \<Rightarrow>
                      (case py_uniform 1 3 w3 of
                         (pause, w4) \<Rightarrow> random_events_loop n (py_sleep pause w4) s3))))"

definition generate_random_events :: "world \<Rightarrow> evt_state \<Rightarrow> py_error + world \<times> evt_state" where
  "generate_random_events w s =
     (case py_randint 1 3 w of
        (num_events, w1) \<Rightarrow> random_events_loop (nat num_events) w1 s)"

subsection \<open>The load test\<close>

text \<open>The three synthetic load figures of an intensity; \<open>None\<close> for any other intensity.\<close>

definition load_levels :: "string \<Rightarrow> world \<Rightarrow> ((real \<times> real \<times> int) \<times> world) option" where
  "load_levels intensity w =
     (if intensity = ''low'' then
        (case py_uniform 50 70 w of (cpu_load, w1) \<Rightarrow>
         case py_uniform 40 60 w1 of (memory_load, w2) \<Rightarrow>
         case py_randint 100 500 w2 of (connection_load, w3) \<Rightarrow>
           Some ((cpu_load, memory_load, connection_load), w3))
      else if intensity = ''medium'' then
        (case py_uniform 70 85 w of (cpu_load, w1) \<Rightarrow>
         case py_uniform 60 80 w1 of (memory_load, w2) \<Rightarrow>
         case py_randint 500 2000 w2 of (connection_load, w3) \<Rightarrow>
           Some ((cpu_load, memory_load, connection_load), w3))
      else if intensity = ''high'' then
        (case py_uniform 85 95 w of (cpu_load, w1) \<Rightarrow>
         case py_uniform 80 95 w1 of (memory_load, w2) \<Rightarrow>
         case py_randint 2000 5000 w2 of (connection_load, w3) \<Rightarrow>
           Some ((cpu_load, memory_load, connection_load), w3))
      else None)"

text \<open>The loop over the targeted nodes that runs when the intensity is high.\<close>

fun stress_nodes :: "nat list \<Rightarrow> world \<Rightarrow> evt_state \<Rightarrow> world \<times> evt_state" where
  "stress_nodes [] w s = (w, s)"
| "stress_nodes (i # rest) w s =
     (if fst (py_random w) < 0.7
      then (case generate_event RESOURCE_EXHAUSTION i (snd (py_random w)) s of
              (e, w1, s1) \<Rightarrow> stress_nodes rest w1 s1)
      else stress_nodes rest (snd (py_random w)) s)"

text \<open>
  \<^verbatim>\<open>run_load_test\<close>.  The result is the returned truth value, or the \<^verbatim>\<open>ValueError\<close> that
  \<^verbatim>\<open>time.sleep\<close> raises for a negative argument; the state is the one reached at that point.
\<close>

definition load_test_event ::
  "string \<Rightarrow> nat list \<Rightarrow> int \<Rightarrow> string \<Rightarrow> real \<times> real \<times> int \<Rightarrow> string \<Rightarrow> evt_state \<Rightarrow> event"
where
  "load_test_event target_node_type target_nodes duration_seconds intensity loads t s =
     (case loads of
        (cpu_load, memory_load, connection_load) \<Rightarrow>
          \<lparr>e_id = int (length (events s)) + 1, e_type = ''LOAD_TEST'',
           e_target_node = None, e_target_type = target_node_type,
           e_target_nodes = Some (map (\<lambda>i. n_id (evt_network_nodes s ! i)) target_nodes),
           e_timestamp = t,
           e_details =
             [(''duration_seconds'', PInt duration_seconds), (''intensity'', PStr intensity),
              (''cpu_load'', PFloat cpu_load), (''memory_load'', PFloat memory_load),
              (''connection_load'', PInt connection_load)]\<rparr>)"

definition completion_event ::
  "string \<Rightarrow> nat list \<Rightarrow> event \<Rightarrow> string \<Rightarrow> real \<Rightarrow> real \<Rightarrow> real \<Rightarrow> evt_state \<Rightarrow> event" where
  "completion_event target_node_type target_nodes start t latency throughput error_rate s =
     \<lparr>e_id = int (length (events s)) + 1, e_type = ''LOAD_TEST_COMPLETED'',
      e_target_node = None, e_target_type = target_node_type,
      e_target_nodes = Some (map (\<lambda>i. n_id (evt_network_nodes s ! i)) target_nodes),
      e_timestamp = t,
      e_details =
        [(''original_test_id'', PInt (e_id start)), (''success'', PBool True),
         (''failures'', PInt 0),
         (''performance_impact'',
          PDict [(''latency_increase_percent'', PFloat latency),
                 (''throughput_decrease_percent'', PFloat throughput),
                 (''error_rate_increase_percent'', PFloat error_rate)])]\<rparr>"

text \<open>The last part of the load test: the completion event is built and appended.\<close>

definition complete_load_test ::
  "string \<Rightarrow> nat list \<Rightarrow> event \<Rightarrow> world \<Rightarrow> evt_state \<Rightarrow> (py_error + bool) \<times> world \<times> evt_state"
where
  "complete_load_test target_node_type target_nodes start w s =
     (case now_iso w of
        (t, w1) \<Rightarrow>
          (case py_uniform 10 50 w1 of
             (latency, w2) \<Rightarrow>
               (case py_uniform 5 30 w2 of
                  (throughput, w3) \<Rightarrow>
                    (case py_uniform 1 20 w3 of
                       (error_rate, w4) \<Rightarrow>
                         (Inr True, w4,
                          s\<lparr>events := events s @
                               [completion_event target_node_type target_nodes start t latency
                                  throughput error_rate s]\<rparr>)))))"

definition run_load_test ::
  "string \<Rightarrow> int \<Rightarrow> string \<Rightarrow> world \<Rightarrow> evt_state \<Rightarrow> (py_error + bool) \<times> world \<times> evt_state" where
  "run_load_test target_node_type duration_seconds intensity w s =
     (let target_nodes = nodes_of_type target_node_type (evt_network_nodes s) in
      if target_nodes = [] then (Inr False, w, s)
      else
        (case load_levels intensity w of
           None \<Rightarrow> (Inr False, w, s)
         | Some (loads, w1) \<Rightarrow>
             (case now_iso w1 of
                (t, w2) \<Rightarrow>
                  (let start = load_test_event target_node_type target_nodes duration_seconds
                                 intensity loads t s;
                       s1 = s\<lparr>events := events s @ [start]\<rparr>
                   in
                   if min duration_seconds 5 < 0 then (Inl ValueError, w2, s1)
                   else
                     (case (if intensity = ''high''
                            then stress_nodes target_nodes
                                   (py_sleep (of_int (min duration_seconds 5)) w2) s1
                            else (py_sleep (of_int (min duration_seconds 5)) w2, s1)) of
                        (w3, s3) \<Rightarrow>
                          complete_load_test target_node_type target_nodes start w3 s3)))))"

subsection \<open>Queries on the event log\<close>

text \<open>
  \<^verbatim>\<open>get_events\<close>.  An enum member is always true, so a given type always filters.  The node
  filter reads \<^verbatim>\<open>e["target_node"]\<close> of every event that passed the type filter, which raises
  \<^verbatim>\<open>KeyError\<close> on a load-test event.  The time range is a \<^verbatim>\<open>timedelta\<close>, given in seconds.
\<close>

definition get_events ::
  "(string \<Rightarrow> real \<Rightarrow> string) \<Rightarrow> EventType option \<Rightarrow> string option \<Rightarrow> real option \<Rightarrow> world \<Rightarrow>
   evt_state \<Rightarrow> py_error + event list \<times> world" where
  "get_events iso_minus event_type node_id time_range w s =
     (let filtered1 =
            (case event_type of
               None \<Rightarrow> events s
             | Some t \<Rightarrow> [e \<leftarrow> events s. e_type e = event_type_name t])
      in
      bind_err
        (if truthy_str node_id then
           (if list_ex (\<lambda>e. e_target_node e = None) filtered1 then Inl KeyError
            else Inr [e \<leftarrow> filtered1. e_target_node e = node_id])
         else Inr filtered1)
        (\<lambda>filtered2.
           if truthy_num time_range then
             (case now_iso w of
                (now, w1) \<Rightarrow>
                  Inr ([e \<leftarrow> filtered2.
                          iso_minus now (case time_range of None \<Rightarrow> 0 | Some r \<Rightarrow> r)
                            \<le> e_timestamp e], w1))
           else Inr (filtered2, w)))"

text \<open>
  The states an \<^verbatim>\<open>EventSimulator\<close> object can be in.  \<^verbatim>\<open>simulate_failover_scenario\<close> writes
  the log through \<^verbatim>\<open>_generate_event\<close> only, which the rule \<open>gen\<close> covers.
\<close>

inductive evt_reachable :: "evt_state \<Rightarrow> bool" where
  init: "evt_reachable evt_init"
| gen: "evt_reachable s \<Longrightarrow> evt_reachable (snd (snd (generate_event t i w s)))"
| scenario: "evt_reachable s \<Longrightarrow> evt_reachable (snd (run_scenario w s))"
| random: "evt_reachable s \<Longrightarrow> generate_random_events w s = Inr (w1, s1) \<Longrightarrow> evt_reachable s1"
| load_test: "evt_reachable s \<Longrightarrow> evt_reachable (snd (snd (run_load_test t d x w s)))"

definition evt_inv :: "evt_state \<Rightarrow> bool" where
  "evt_inv s = (map e_id (events s) = map int [1..<Suc (length (events s))])"

section \<open>The platform (\<^verbatim>\<open>platform.py\<close>)\<close>

text \<open>
  \<^verbatim>\<open>OAMPlatform.initialize_components\<close> constructs one object of each module, and each
  constructor evaluates its own list display of node dictionaries: the three node lists are
  three values.  The traffic simulator and the dashboard write none of them.
\<close>

record platform =
  p_oam :: oam_state
  p_kpi :: kpi_state
  p_event :: evt_state

definition platform_init :: platform where
  "platform_init = \<lparr>p_oam = oam_init, p_kpi = kpi_init, p_event = evt_init\<rparr>"

text \<open>One pass of the fault-generation thread, and of the KPI collection over all nodes.\<close>

definition platform_fault_tick :: "world \<Rightarrow> platform \<Rightarrow> world \<times> platform" where
  "platform_fault_tick w p =
     (case fault_generation_tick w (p_oam p) of (w1, o1) \<Rightarrow> (w1, p\<lparr>p_oam := o1\<rparr>))"

definition platform_collect :: "world \<Rightarrow> platform \<Rightarrow> py_error + world \<times> platform" where
  "platform_collect w p =
     bind_err (collect_all (kpi_network_nodes (p_kpi p)) w (p_kpi p))
       (\<lambda>(w1, k1). Inr (w1, p\<lparr>p_kpi := k1\<rparr>))"

text \<open>The window of a KPI and a node, if there is one.\<close>

definition window_of :: "kpi_store \<Rightarrow> string \<Rightarrow> string \<Rightarrow> sample list option" where
  "window_of data kpi_id node_id =
     (case map_of data kpi_id of None \<Rightarrow> None | Some nds \<Rightarrow> map_of nds node_id)"

text \<open>A step of the environment that sleeps not and only consumes draws.\<close>

definition world_step :: "world \<Rightarrow> world \<Rightarrow> bool" where
  "world_step w w1 = (slept w1 = slept w \<and> sset (rand w1) \<subseteq> sset (rand w))"

text \<open>An orchestrator whose node list has no UPF.\<close>

definition no_upf_state :: evt_state where
  "no_upf_state = evt_init\<lparr>evt_network_nodes := take 4 initial_nodes\<rparr>"

text \<open>A store after one alarm was raised and cleared, and a log after a load test.\<close>

definition cleared_once :: oam_state where
  "cleared_once =
     snd (snd (clear_alarm 1 example_world
       (snd (snd (create_alarm ''gnb-001'' EQUIPMENT CRITICAL ''Node gnb-001 is down''
                    example_world oam_init)))))"

definition loaded_log :: evt_state where
  "loaded_log = snd (snd (run_load_test ''UPF'' 120 ''high'' example_world evt_init))"

text \<open>A number of passes of the fault-generation thread, and an environment in which the
  first fault trial succeeds and every later trial fails.\<close>

fun fault_ticks :: "nat \<Rightarrow> world \<Rightarrow> platform \<Rightarrow> world \<times> platform" where
  "fault_ticks 0 w p = (w, p)"
| "fault_ticks (Suc n) w p =
     (case platform_fault_tick w p of (w1, p1) \<Rightarrow> fault_ticks n w1 p1)"

definition outage_world :: world where
  "outage_world =
     \<lparr>rand = 0.01 ## sconst 0.5, clock = sconst ''2024-01-01T00:00:00'', slept = []\<rparr>"

text \<open>The samples of a window from a cutoff on, and a query result all of whose windows
  are stored windows cut at a clock reading moved back by \<open>r\<close>.\<close>

definition kept_since :: "string \<Rightarrow> sample list \<Rightarrow> sample list" where
  "kept_since T d = [dp \<leftarrow> d. T \<le> s_timestamp dp]"

definition windows_filtered ::
  "(string \<Rightarrow> real \<Rightarrow> string) \<Rightarrow> real \<Rightarrow> world \<Rightarrow> node_windows \<Rightarrow> node_windows \<Rightarrow> bool" where
  "windows_filtered im r w stored res =
     (\<forall>e \<in> set res. \<exists>d t. (fst e, d) \<in> set stored \<and> t \<in> sset (clock w) \<and>
        snd e = kept_since (im t r) d)"

text \<open>A window with three samples, and date arithmetic that yields one fixed cutoff.\<close>

definition example_history :: kpi_state where
  "example_history =
     kpi_init\<lparr>kpi_data :=
       [(''cpu_utilization'',
           [(''gnb-001'',
             [\<lparr>s_timestamp = ''2024-01-01T00:00:00'', s_value = 41\<rparr>,
              \<lparr>s_timestamp = ''2024-01-01T00:05:00'', s_value = 52\<rparr>,
              \<lparr>s_timestamp = ''2024-01-01T00:10:00'', s_value = 63\<rparr>])])]\<rparr>"

definition example_cutoff :: "string \<Rightarrow> real \<Rightarrow> string" where
  "example_cutoff t r = ''2024-01-01T00:05:00''"

text \<open>A load test with a negative duration, on the initial orchestrator.\<close>

definition negative_duration_run :: "(py_error + bool) \<times> (int \<times> string) list" where
  "negative_duration_run =
     (case run_load_test ''UPF'' (- 1) ''low'' example_world evt_init of
        (r, w1, s1) \<Rightarrow> (r, map (\<lambda>e. (e_id e, e_type e)) (events s1)))"

text \<open>The KPI store after one collection pass over all nodes at one instant, and the keys
  of a query result.\<close>

definition tick_world :: world where
  "tick_world = \<lparr>rand = sconst 0.5, clock = sconst ''2024-01-01T00:10:00'', slept = []\<rparr>"

definition collected_once :: kpi_state where
  "collected_once =
     (case collect_all (kpi_network_nodes kpi_init) tick_world kpi_init of
        Inl e \<Rightarrow> kpi_init
      | Inr r \<Rightarrow> snd r)"

definition window_keys :: "kpi_store \<Rightarrow> (string \<times> string list) list" where
  "window_keys result = map (\<lambda>e. (fst e, map fst (snd e))) result"

section \<open>Properties of the alarm store\<close>

lemma length_alist_update:
  "length (AList.update k v al) = (if k \<in> fst ` set al then length al else Suc (length al))"
  by (induction al) auto

lemma clear_alarm_length:
  "length (alarms (snd (snd (clear_alarm k w s)))) = length (alarms s)"
proof (cases "map_of (alarms s) k")
  case None
  then show ?thesis by (simp add: clear_alarm_def)
next
  case (Some a)
  then have "k \<in> fst ` set (alarms s)"
    by (metis domI dom_map_of_conv_image_fst)
  with Some show ?thesis
    by (simp add: clear_alarm_def now_iso_def length_alist_update)
qed

subsection \<open>Clearing\<close>

lemma clear_alarm_absent:
  "map_of (alarms s) k = None \<Longrightarrow> clear_alarm k w s = (False, w, s)"
  by (simp add: clear_alarm_def)

lemma clear_alarm_present:
  "map_of (alarms s) k = Some a \<Longrightarrow>
   clear_alarm k w s =
     (True, w\<lparr>clock := stl (clock w)\<rparr>,
      s\<lparr>alarms := AList.update k (mark_cleared (shd (clock w)) a) (alarms s)\<rparr>)"
  by (simp add: clear_alarm_def now_iso_def mark_cleared_def)

lemma clear_alarm_map_of:
  "map_of (alarms (snd (snd (clear_alarm k w s)))) k' =
     (if k' = k then map_option (mark_cleared (shd (clock w))) (map_of (alarms s) k)
      else map_of (alarms s) k')"
  by (cases "map_of (alarms s) k")
    (simp_all add: clear_alarm_absent clear_alarm_present update_conv')

lemma clear_alarm_frame:
  "alarm_id_counter (snd (snd (clear_alarm k w s))) = alarm_id_counter s"
  "oam_network_nodes (snd (snd (clear_alarm k w s))) = oam_network_nodes s"
  "oam_running (snd (snd (clear_alarm k w s))) = oam_running s"
  by (cases "map_of (alarms s) k"; simp add: clear_alarm_absent clear_alarm_present)+

lemma clear_alarm_keys:
  "map fst (alarms (snd (snd (clear_alarm k w s)))) = map fst (alarms s)"
proof (cases "map_of (alarms s) k")
  case None
  then show ?thesis by (simp add: clear_alarm_absent)
next
  case (Some a)
  then have "k \<in> set (map fst (alarms s))"
    by (metis domI dom_map_of_conv_image_fst set_map)
  with Some show ?thesis
    by (simp add: clear_alarm_present update_keys)
qed

text \<open>
  C2, as the code has it.  Clearing an id that is not in the store returns false and changes
  nothing.  Clearing an id that is in the store returns true whatever the alarm's status is:
  the alarm gets status cleared and the current clock reading as its \<^verbatim>\<open>cleared_time\<close>, every
  other alarm, the id counter and the node list stay as they were.
\<close>

theorem C2_clear_alarm_amended:
  "(map_of (alarms s) k = None \<longrightarrow> clear_alarm k w s = (False, w, s)) \<and>
   (\<forall>a. map_of (alarms s) k = Some a \<longrightarrow>
      (case clear_alarm k w s of
         (ok, w1, s1) \<Rightarrow>
           ok \<and> map_of (alarms s1) k = Some (mark_cleared (shd (clock w)) a) \<and>
           a_status (mark_cleared (shd (clock w)) a) = ''cleared'' \<and>
           a_cleared_time (mark_cleared (shd (clock w)) a) = Some (shd (clock w)) \<and>
           (\<forall>k'. k' \<noteq> k \<longrightarrow> map_of (alarms s1) k' = map_of (alarms s) k') \<and>
           map fst (alarms s1) = map fst (alarms s) \<and>
           alarm_id_counter s1 = alarm_id_counter s \<and>
           oam_network_nodes s1 = oam_network_nodes s))"
proof (intro conjI allI impI)
  assume "map_of (alarms s) k = None"
  then show "clear_alarm k w s = (False, w, s)" by (rule clear_alarm_absent)
next
  fix a assume a: "map_of (alarms s) k = Some a"
  obtain ok w1 s1 where r: "clear_alarm k w s = (ok, w1, s1)"
    by (cases "clear_alarm k w s") auto
  have s1: "s1 = snd (snd (clear_alarm k w s))" and ok: "ok = fst (clear_alarm k w s)"
    by (simp_all add: r)
  have "ok" by (simp add: ok clear_alarm_present [OF a])
  moreover have "map_of (alarms s1) k = Some (mark_cleared (shd (clock w)) a)"
    by (simp add: s1 clear_alarm_map_of a)
  moreover have "\<forall>k'. k' \<noteq> k \<longrightarrow> map_of (alarms s1) k' = map_of (alarms s) k'"
    by (simp add: s1 clear_alarm_map_of)
  moreover have "map fst (alarms s1) = map fst (alarms s)"
    by (simp add: s1 clear_alarm_keys)
  moreover have "alarm_id_counter s1 = alarm_id_counter s"
    "oam_network_nodes s1 = oam_network_nodes s"
    by (simp_all add: s1 clear_alarm_frame)
  ultimately show "case clear_alarm k w s of
         (ok, w1, s1) \<Rightarrow>
           ok \<and> map_of (alarms s1) k = Some (mark_cleared (shd (clock w)) a) \<and>
           a_status (mark_cleared (shd (clock w)) a) = ''cleared'' \<and>
           a_cleared_time (mark_cleared (shd (clock w)) a) = Some (shd (clock w)) \<and>
           (\<forall>k'. k' \<noteq> k \<longrightarrow> map_of (alarms s1) k' = map_of (alarms s) k') \<and>
           map fst (alarms s1) = map fst (alarms s) \<and>
           alarm_id_counter s1 = alarm_id_counter s \<and>
           oam_network_nodes s1 = oam_network_nodes s"
    by (simp add: r mark_cleared_def)
qed

theorem C2_clear_alarm_amended_witness:
  "map_of (alarms example_store) 7 = None \<and>
   clear_alarm 7 example_world example_store = (False, example_world, example_store) \<and>
   map_of (alarms example_store) 1 \<noteq> None \<and>
   fst (clear_alarm 1 example_world example_store) \<and>
   map (a_status \<circ> snd) (alarms (snd (snd (clear_alarm 1 example_world example_store)))) =
     [''cleared'', ''active'']"
  using C2_clear_alarm_amended [of example_store 7 example_world]
    C2_clear_alarm_amended [of example_store 1 example_world]
  by (simp add: example_store_def example_world_def oam_init_def clear_alarm_def now_iso_def)

text \<open>
  C2, as the spec has it, fails on an alarm that is already cleared: the second clear of the
  same id returns true again and replaces the recorded \<^verbatim>\<open>cleared_time\<close>.
\<close>

theorem C2_second_clear_counterexample:
  "second_clear_example =
     (True, True, [(''cleared'', Some ''2024-01-01T00:05:00'')],
      [(''cleared'', Some ''2024-01-01T00:10:00'')])"
  by (simp add: second_clear_example_def example_world_def oam_init_def create_alarm_def
      clear_alarm_def now_iso_def)

subsection \<open>Recovery of a node\<close>

lemma mark_cleared_twice [simp]: "mark_cleared t (mark_cleared u a) = mark_cleared t a"
  by (simp add: mark_cleared_def)

lemma clear_matching_frame:
  "clear_matching nid snap w s = (w1, s1) \<Longrightarrow>
   alarm_id_counter s1 = alarm_id_counter s \<and> oam_network_nodes s1 = oam_network_nodes s \<and>
   oam_running s1 = oam_running s \<and> map fst (alarms s1) = map fst (alarms s)"
proof (induction snap arbitrary: w s)
  case Nil
  then show ?case by simp
next
  case (Cons entry rest)
  show ?case
  proof (cases "a_node_id (snd entry) = nid \<and> a_description (snd entry) = ''Node '' @ nid @ '' is down''")
    case True
    obtain ok w2 s2 where c: "clear_alarm (fst entry) w s = (ok, w2, s2)"
      by (cases "clear_alarm (fst entry) w s") auto
    then have s2: "s2 = snd (snd (clear_alarm (fst entry) w s))" by simp
    from Cons.prems True c have "clear_matching nid rest w2 s2 = (w1, s1)" by simp
    from Cons.IH [OF this] show ?thesis
      by (simp add: s2 clear_alarm_frame clear_alarm_keys)
  next
    case False
    with Cons.prems have "clear_matching nid rest w s = (w1, s1)" by auto
    from Cons.IH [OF this] show ?thesis .
  qed
qed

lemma clear_matching_map_of:
  "clear_matching nid snap w s = (w1, s1) \<Longrightarrow>
   (if k \<in> fst ` {e \<in> set snap. a_node_id (snd e) = nid \<and> a_description (snd e) = down_description nid}
    then \<forall>a. map_of (alarms s) k = Some a \<longrightarrow> (\<exists>t. map_of (alarms s1) k = Some (mark_cleared t a))
    else map_of (alarms s1) k = map_of (alarms s) k)"
proof (induction snap arbitrary: w s)
  case Nil
  then show ?case by simp
next
  case (Cons entry rest)
  let ?M = "\<lambda>xs. fst ` {e \<in> set xs. a_node_id (snd e) = nid \<and> a_description (snd e) = down_description nid}"
  show ?case
  proof (cases "a_node_id (snd entry) = nid \<and> a_description (snd entry) = down_description nid")
    case True
    obtain ok w2 s2 where c: "clear_alarm (fst entry) w s = (ok, w2, s2)"
      by (cases "clear_alarm (fst entry) w s") auto
    then have s2: "s2 = snd (snd (clear_alarm (fst entry) w s))" by simp
    from Cons.prems True c have "clear_matching nid rest w2 s2 = (w1, s1)"
      by (simp add: down_description_def)
    note ih = Cons.IH [OF this]
    have M: "?M (entry # rest) = insert (fst entry) (?M rest)"
      using True by auto
    show ?thesis
    proof (cases "k = fst entry")
      case keq: True
      have m2: "map_of (alarms s2) k = map_option (mark_cleared (shd (clock w))) (map_of (alarms s) k)"
        by (simp add: s2 clear_alarm_map_of keq)
      show ?thesis
      proof (cases "k \<in> ?M rest")
        case True
        with ih m2 M keq show ?thesis by auto
      next
        case False
        with ih have "map_of (alarms s1) k = map_of (alarms s2) k" by simp
        with m2 M keq show ?thesis by auto
      qed
    next
      case kne: False
      have "map_of (alarms s2) k = map_of (alarms s) k"
        by (simp add: s2 clear_alarm_map_of kne)
      with ih M kne show ?thesis by simp
    qed
  next
    case False
    with Cons.prems have "clear_matching nid rest w s = (w1, s1)"
      by (auto simp: down_description_def)
    note ih = Cons.IH [OF this]
    have "?M (entry # rest) = ?M rest"
      using False by auto
    with ih show ?thesis by simp
  qed
qed

lemma nth_set_status_id: "n_id (set_status i st ns ! i) = n_id (ns ! i)"
proof (cases "i < length ns")
  case True
  then show ?thesis by (simp add: set_status_def)
next
  case False
  then have "ns[i := (ns ! i)\<lparr>n_status := st\<rparr>] = ns" by (simp add: list_update_beyond)
  then show ?thesis by (simp add: set_status_def)
qed

lemma recover_node_map_of:
  assumes r: "recover_node i w s = (w1, s1)" and d: "distinct (map fst (alarms s))"
    and a: "map_of (alarms s) k = Some a"
  shows "if a_node_id a = n_id (oam_network_nodes s ! i) \<and>
            a_description a = down_description (n_id (oam_network_nodes s ! i))
         then \<exists>t. map_of (alarms s1) k = Some (mark_cleared t a)
         else map_of (alarms s1) k = Some a"
proof -
  let ?nid = "n_id (oam_network_nodes s ! i)"
  let ?s0 = "s\<lparr>oam_network_nodes := set_status i ''active'' (oam_network_nodes s)\<rparr>"
  from r have c: "clear_matching ?nid (alarms s) w ?s0 = (w1, s1)"
    by (simp add: recover_node_def nth_set_status_id)
  have mem: "k \<in> fst ` {e \<in> set (alarms s). a_node_id (snd e) = ?nid \<and> a_description (snd e) = down_description ?nid}
     \<longleftrightarrow> a_node_id a = ?nid \<and> a_description a = down_description ?nid"
  proof
    assume "k \<in> fst ` {e \<in> set (alarms s). a_node_id (snd e) = ?nid \<and> a_description (snd e) = down_description ?nid}"
    then obtain e where e: "e \<in> set (alarms s)" "fst e = k"
      "a_node_id (snd e) = ?nid \<and> a_description (snd e) = down_description ?nid" by auto
    then have "(k, snd e) \<in> set (alarms s)" by (metis prod.collapse)
    with d have "map_of (alarms s) k = Some (snd e)" by simp
    with a e show "a_node_id a = ?nid \<and> a_description a = down_description ?nid" by simp
  next
    assume m: "a_node_id a = ?nid \<and> a_description a = down_description ?nid"
    from a have "(k, a) \<in> set (alarms s)" by (rule map_of_SomeD)
    with m show "k \<in> fst ` {e \<in> set (alarms s). a_node_id (snd e) = ?nid \<and> a_description (snd e) = down_description ?nid}"
      by force
  qed
  from clear_matching_map_of [OF c, of k] mem a show ?thesis
    by (auto split: if_splits)
qed

lemma recover_node_frame:
  "recover_node i w s = (w1, s1) \<Longrightarrow>
   alarm_id_counter s1 = alarm_id_counter s \<and> map fst (alarms s1) = map fst (alarms s) \<and>
   oam_network_nodes s1 = set_status i ''active'' (oam_network_nodes s)"
  by (auto simp: recover_node_def dest: clear_matching_frame)

text \<open>
  C5.  A node that is down and whose recovery trial succeeds (the draw is below 0.3) is set
  back to active, and of the stored alarms exactly those of that node whose description is
  the literal \<^verbatim>\<open>Node <id> is down\<close> end up cleared; every other alarm, such as one with the
  description \<^verbatim>\<open>High CPU usage: 91.2%\<close>, is left exactly as it was.
\<close>

theorem C5_recovery_clears_only_down_alarms:
  assumes run: "recover_nodes [i] w s = (w1, s1)"
    and down: "n_status (oam_network_nodes s ! i) = ''down''"
    and trial: "shd (rand w) < 0.3"
    and i: "i < length (oam_network_nodes s)"
    and d: "distinct (map fst (alarms s))"
    and a: "map_of (alarms s) k = Some a"
  shows "n_status (oam_network_nodes s1 ! i) = ''active'' \<and>
    (a_node_id a = n_id (oam_network_nodes s ! i) \<and>
     a_description a = ''Node '' @ n_id (oam_network_nodes s ! i) @ '' is down'' \<longrightarrow>
       (\<exists>t. map_of (alarms s1) k = Some (a\<lparr>a_status := ''cleared'', a_cleared_time := Some t\<rparr>))) \<and>
    (\<not> (a_node_id a = n_id (oam_network_nodes s ! i) \<and>
        a_description a = ''Node '' @ n_id (oam_network_nodes s ! i) @ '' is down'') \<longrightarrow>
       map_of (alarms s1) k = Some a) \<and>
    (a_description a = ''High CPU usage: 91.2%'' \<longrightarrow> map_of (alarms s1) k = Some a)"
proof -
  from run down trial have r: "recover_node i (snd (py_random w)) s = (w1, s1)"
    by (simp add: py_random_def split: prod.splits)
  from recover_node_frame [OF r] i have "n_status (oam_network_nodes s1 ! i) = ''active''"
    by (simp add: set_status_def)
  moreover note recover_node_map_of [OF r d a]
  ultimately show ?thesis
    by (auto simp: down_description_def mark_cleared_def split: if_splits)
qed

theorem C5_recovery_witness:
  "n_status (oam_network_nodes example_store ! 0) = ''down'' \<and>
   map (\<lambda>e. (a_description (snd e), a_status (snd e)))
     (alarms (snd (recover_nodes [0] example_world example_store))) =
     [(''Node gnb-001 is down'', ''cleared''), (''High CPU usage: 91.2%'', ''active'')] \<and>
   map_of (alarms (snd (recover_nodes [0] example_world example_store))) 2 =
     map_of (alarms example_store) 2"
proof -
  have down: "n_status (oam_network_nodes example_store ! 0) = ''down''"
    by (simp add: example_store_def oam_init_def initial_nodes_def set_status_def)
  have trial: "shd (rand example_world) < 0.3"
    by (simp add: example_world_def)
  have i: "0 < length (oam_network_nodes example_store)"
    by (simp add: example_store_def oam_init_def initial_nodes_def set_status_def)
  have d: "distinct (map fst (alarms example_store))"
    by (simp add: example_store_def oam_init_def)
  have a: "map_of (alarms example_store) 2 =
    Some \<lparr>a_id = 2, a_node_id = ''gnb-001'', a_type = ''PROCESSING_ERROR'',
               a_severity = ''MAJOR'', a_description = ''High CPU usage: 91.2%'',
               a_raised_time = ''2023-12-31T23:30:00'', a_status = ''active'',
               a_cleared_time = None\<rparr>"
    by (simp add: example_store_def oam_init_def)
  have run: "map (\<lambda>e. (a_description (snd e), a_status (snd e)))
     (alarms (snd (recover_nodes [0] example_world example_store))) =
     [(''Node gnb-001 is down'', ''cleared''), (''High CPU usage: 91.2%'', ''active'')]"
    by (simp add: example_store_def example_world_def oam_init_def initial_nodes_def
        set_status_def py_random_def recover_node_def clear_alarm_def now_iso_def)
  from C5_recovery_clears_only_down_alarms [OF surjective_pairing down trial i d a] down run a
  show ?thesis by simp
qed

subsection \<open>Alarm identifiers\<close>

lemma oam_inv_cong:
  "map fst (alarms s1) = map fst (alarms s) \<Longrightarrow> alarm_id_counter s1 = alarm_id_counter s \<Longrightarrow>
   oam_inv s1 = oam_inv s"
  by (simp add: oam_inv_def flip: set_map)

lemma create_alarm_result:
  "create_alarm nid ty sev d w s =
     (alarm_id_counter s, w\<lparr>clock := stl (clock w)\<rparr>,
      s\<lparr>alarm_id_counter := alarm_id_counter s + 1,
        alarms := AList.update (alarm_id_counter s)
          \<lparr>a_id = alarm_id_counter s, a_node_id = nid, a_type = alarm_type_name ty,
           a_severity = severity_name sev, a_description = d, a_raised_time = shd (clock w),
           a_status = ''active'', a_cleared_time = None\<rparr> (alarms s)\<rparr>)"
  by (simp add: create_alarm_def now_iso_def Let_def)

lemma oam_inv_create: "oam_inv s \<Longrightarrow> oam_inv (snd (snd (create_alarm nid ty sev d w s)))"
  by (auto simp: oam_inv_def create_alarm_result dom_update distinct_update)

lemma oam_inv_clear: "oam_inv s \<Longrightarrow> oam_inv (snd (snd (clear_alarm k w s)))"
  by (simp add: oam_inv_cong [OF clear_alarm_keys clear_alarm_frame(1)])

lemma oam_inv_nodes [simp]: "oam_inv (s\<lparr>oam_network_nodes := ns\<rparr>) = oam_inv s"
  by (simp add: oam_inv_def)

lemma oam_inv_generate_fault: "oam_inv s \<Longrightarrow> oam_inv (snd (generate_fault i ft w s))"
  by (simp add: generate_fault_def Let_def oam_inv_create)

lemma oam_inv_faults_for_node: "oam_inv s \<Longrightarrow> oam_inv (snd (faults_for_node i fs w s))"
proof (induction fs arbitrary: w s)
  case Nil
  then show ?case by simp
next
  case (Cons fault rest)
  show ?case
  proof (cases "fst (py_random w) < snd fault")
    case True
    obtain w2 s2 where g: "generate_fault i (fst fault) (snd (py_random w)) s = (w2, s2)"
      by (cases "generate_fault i (fst fault) (snd (py_random w)) s") auto
    with oam_inv_generate_fault [OF Cons.prems, of i "fst fault" "snd (py_random w)"]
    have "oam_inv s2" by simp
    from Cons.IH [OF this, of w2] True g show ?thesis by simp
  next
    case False
    with Cons.IH [OF Cons.prems] show ?thesis by simp
  qed
qed

lemma oam_inv_faults_for_nodes: "oam_inv s \<Longrightarrow> oam_inv (snd (faults_for_nodes is w s))"
proof (induction "is" arbitrary: w s)
  case Nil
  then show ?case by simp
next
  case (Cons i rest)
  obtain w1 s1 where f: "faults_for_node i fault_types w s = (w1, s1)"
    by (cases "faults_for_node i fault_types w s") auto
  with oam_inv_faults_for_node [OF Cons.prems, of i fault_types w] have "oam_inv s1" by simp
  from Cons.IH [OF this, of w1] f show ?case by simp
qed

lemma oam_inv_recover_node: "oam_inv s \<Longrightarrow> oam_inv (snd (recover_node i w s))"
proof -
  assume inv: "oam_inv s"
  obtain w1 s1 where r: "recover_node i w s = (w1, s1)"
    by (cases "recover_node i w s") auto
  from recover_node_frame [OF r] have "oam_inv s1 = oam_inv s"
    by (intro oam_inv_cong) simp_all
  with inv r show ?thesis by simp
qed

lemma oam_inv_recover_nodes: "oam_inv s \<Longrightarrow> oam_inv (snd (recover_nodes is w s))"
proof (induction "is" arbitrary: w s)
  case Nil
  then show ?case by simp
next
  case (Cons i rest)
  show ?case
  proof (cases "n_status (oam_network_nodes s ! i) = ''down'' \<and> fst (py_random w) < 0.3")
    case True
    obtain w1 s1 where r: "recover_node i (snd (py_random w)) s = (w1, s1)"
      by (cases "recover_node i (snd (py_random w)) s") auto
    with oam_inv_recover_node [OF Cons.prems, of i "snd (py_random w)"] have "oam_inv s1" by simp
    from Cons.IH [OF this, of w1] True r show ?thesis by simp
  next
    case False
    with Cons.IH [OF Cons.prems] show ?thesis by auto
  qed
qed

lemma oam_inv_tick: "oam_inv s \<Longrightarrow> oam_inv (snd (fault_generation_tick w s))"
proof -
  assume inv: "oam_inv s"
  obtain w1 s1 where f: "faults_for_nodes [0..<length (oam_network_nodes s)] w s = (w1, s1)"
    by (cases "faults_for_nodes [0..<length (oam_network_nodes s)] w s") auto
  with oam_inv_faults_for_nodes [OF inv, of "[0..<length (oam_network_nodes s)]" w]
  have i1: "oam_inv s1" by simp
  obtain w2 s2 where r: "recover_nodes [0..<length (oam_network_nodes s1)] w1 s1 = (w2, s2)"
    by (cases "recover_nodes [0..<length (oam_network_nodes s1)] w1 s1") auto
  with oam_inv_recover_nodes [OF i1, of "[0..<length (oam_network_nodes s1)]" w1]
  have "oam_inv s2" by simp
  with f r show ?thesis by (simp add: fault_generation_tick_def)
qed

lemma oam_reachable_inv: "oam_reachable s \<Longrightarrow> oam_inv s"
proof (induction rule: oam_reachable.induct)
  case init
  show ?case by (simp add: oam_inv_def oam_init_def)
qed (simp_all add: oam_inv_create oam_inv_clear oam_inv_tick)

lemma oam_inv_length: "oam_inv s \<Longrightarrow> int (length (alarms s)) = alarm_id_counter s - 1"
proof -
  assume inv: "oam_inv s"
  then have "distinct (map fst (alarms s))" "set (map fst (alarms s)) = {1..<alarm_id_counter s}"
    "1 \<le> alarm_id_counter s"
    by (simp_all add: oam_inv_def)
  then have "length (map fst (alarms s)) = card {1..<alarm_id_counter s}"
    by (metis distinct_card)
  with \<open>1 \<le> alarm_id_counter s\<close> show ?thesis by simp
qed

text \<open>
  C10.  The field \<^verbatim>\<open>active_alarms\<close> of the status snapshot is the number of stored alarms,
  whatever their status, which in every reachable state is the number of alarms created so
  far: clearing any alarm id leaves the reported number as it was, and after one alarm has
  been created in the initial store and then cleared the snapshot still reports 1.
\<close>

theorem C10_active_alarms_counts_cleared:
  "st_active_alarms (get_status s) = length (alarms s) \<and>
   (oam_reachable s \<longrightarrow> int (st_active_alarms (get_status s)) = alarm_id_counter s - 1) \<and>
   st_active_alarms (get_status (snd (snd (clear_alarm k w s)))) = st_active_alarms (get_status s) \<and>
   (case create_alarm nid ty sev d w oam_init of
      (k1, w1, s1) \<Rightarrow>
        (case clear_alarm k1 w1 s1 of
           (ok, w2, s2) \<Rightarrow>
              ok \<and> map (a_status \<circ> snd) (alarms s2) = [''cleared''] \<and>
              st_active_alarms (get_status s2) = 1))"
proof (intro conjI impI)
  show "st_active_alarms (get_status s) = length (alarms s)"
    by (simp add: get_status_def)
  show "int (st_active_alarms (get_status s)) = alarm_id_counter s - 1" if "oam_reachable s"
    using oam_inv_length [OF oam_reachable_inv [OF that]] by (simp add: get_status_def)
  show "st_active_alarms (get_status (snd (snd (clear_alarm k w s)))) =
      st_active_alarms (get_status s)"
    by (simp add: get_status_def clear_alarm_length)
  show "case create_alarm nid ty sev d w oam_init of
      (k1, w1, s1) \<Rightarrow>
        (case clear_alarm k1 w1 s1 of
           (ok, w2, s2) \<Rightarrow>
              ok \<and> map (a_status \<circ> snd) (alarms s2) = [''cleared''] \<and>
              st_active_alarms (get_status s2) = 1)"
    by (simp add: get_status_def create_alarm_def clear_alarm_def oam_init_def now_iso_def)
qed

theorem C10_active_alarms_witness:
  "oam_reachable cleared_once \<and> alarm_id_counter cleared_once = 2 \<and>
   map (a_status \<circ> snd) (alarms cleared_once) = [''cleared''] \<and>
   st_active_alarms (get_status cleared_once) = 1"
proof -
  have r: "oam_reachable cleared_once"
    unfolding cleared_once_def
    by (rule oam_reachable.clear [OF oam_reachable.create [OF oam_reachable.init]])
  have c: "alarm_id_counter cleared_once = 2"
    "map (a_status \<circ> snd) (alarms cleared_once) = [''cleared'']"
    by (simp_all add: cleared_once_def create_alarm_def clear_alarm_def oam_init_def now_iso_def)
  from C10_active_alarms_counts_cleared [where s = cleared_once and k = 1
      and w = example_world and nid = "''gnb-001''" and ty = EQUIPMENT and sev = CRITICAL
      and d = "''Node gnb-001 is down''"] r c
  show ?thesis by simp
qed

section \<open>Properties of the KPI store\<close>

lemma deque_append_full: "length d = maxlen \<Longrightarrow> deque_append d x = tl d @ [x]"
  by (cases d) (simp_all add: deque_append_def maxlen_def)

lemma deque_append_room: "length d < maxlen \<Longrightarrow> deque_append d x = d @ [x]"
  by (simp add: deque_append_def)

lemma deque_append_bounded: "length d \<le> maxlen \<Longrightarrow> length (deque_append d x) \<le> maxlen"
  by (cases "length d = maxlen") (simp_all add: deque_append_full deque_append_room maxlen_def)

lemma set_alist_update: "set (AList.update k v al) \<subseteq> insert (k, v) (set al)"
  by (induction al) auto

lemma bounded_update_inner:
  "list_all (\<lambda>nd. length (snd nd) \<le> maxlen) nds \<Longrightarrow> length d \<le> maxlen \<Longrightarrow>
   list_all (\<lambda>nd. length (snd nd) \<le> maxlen) (AList.update n d nds)"
  using set_alist_update [of n d nds] by (auto simp: list_all_iff)

lemma bounded_update_outer:
  "windows_bounded data \<Longrightarrow> list_all (\<lambda>nd. length (snd nd) \<le> maxlen) nds \<Longrightarrow>
   windows_bounded (AList.update k nds data)"
proof -
  assume b: "windows_bounded data" and n: "list_all (\<lambda>nd. length (snd nd) \<le> maxlen) nds"
  have "list_all (\<lambda>nd. length (snd nd) \<le> maxlen) (snd e)"
    if "e \<in> set (AList.update k nds data)" for e
  proof -
    from that set_alist_update [of k nds data] have "e = (k, nds) \<or> e \<in> set data" by auto
    with b n show ?thesis by (auto simp: windows_bounded_def list_all_iff)
  qed
  then show ?thesis by (simp add: windows_bounded_def list_all_iff)
qed

lemma append_sample_bounded:
  assumes "windows_bounded data" and "append_sample k n x data = Inr data1"
  shows "windows_bounded data1"
proof (cases "map_of data k")
  case None
  with assms show ?thesis by (simp add: append_sample_def)
next
  case (Some nds)
  then have "(k, nds) \<in> set data" by (rule map_of_SomeD)
  with assms(1) have nds: "list_all (\<lambda>nd. length (snd nd) \<le> maxlen) nds"
    by (auto simp: windows_bounded_def list_all_iff)
  have "length (case map_of nds n of None \<Rightarrow> [] | Some d \<Rightarrow> d) \<le> maxlen"
  proof (cases "map_of nds n")
    case None
    then show ?thesis by simp
  next
    case (Some d)
    then have "(n, d) \<in> set nds" by (rule map_of_SomeD)
    with nds Some show ?thesis by (auto simp: list_all_iff)
  qed
  then have "length (deque_append (case map_of nds n of None \<Rightarrow> [] | Some d \<Rightarrow> d) x) \<le> maxlen"
    by (rule deque_append_bounded)
  from bounded_update_outer [OF assms(1) bounded_update_inner [OF nds this]] assms(2) Some
  show ?thesis by (auto simp: append_sample_def)
qed

text \<open>
  C4.  A sample appended to a window that holds 1000 samples leaves a window of exactly 1000
  samples: the oldest one is gone, the other 999 keep their order and the new sample is the
  last.  Appending never takes a store whose windows all hold at most 1000 samples to one
  with a longer window.
\<close>

theorem C4_window_fifo_bounded:
  assumes k: "map_of data kpi_id = Some node_data"
    and n: "map_of node_data node_id = Some d"
    and full: "length d = 1000"
  shows "\<exists>data1 node_data1 d1.
    append_sample kpi_id node_id x data = Inr data1 \<and>
    map_of data1 kpi_id = Some node_data1 \<and> map_of node_data1 node_id = Some d1 \<and>
    length d1 = 1000 \<and> d1 = drop 1 d @ [x] \<and>
    (\<forall>i<999. d1 ! i = d ! Suc i) \<and> d1 ! 999 = x \<and>
    (windows_bounded data \<longrightarrow> windows_bounded data1)"
proof -
  let ?d1 = "drop 1 d @ [x]"
  let ?nd1 = "AList.update node_id ?d1 node_data"
  let ?data1 = "AList.update kpi_id ?nd1 data"
  from full have da: "deque_append d x = ?d1"
    by (simp add: deque_append_full maxlen_def drop_Suc)
  with k n have r: "append_sample kpi_id node_id x data = Inr ?data1"
    by (simp add: append_sample_def)
  have "map_of ?data1 kpi_id = Some ?nd1" "map_of ?nd1 node_id = Some ?d1"
    by (simp_all add: update_conv')
  moreover from full have "length ?d1 = 1000" by simp
  moreover from full have "\<forall>i<999. ?d1 ! i = d ! Suc i"
    by (simp add: nth_append)
  moreover from full have "?d1 ! 999 = x"
    by (simp add: nth_append)
  moreover have "windows_bounded data \<longrightarrow> windows_bounded ?data1"
    using append_sample_bounded [OF _ r] by blast
  ultimately show ?thesis using r by blast
qed

theorem C4_window_witness:
  "length (snd (hd (snd (hd full_store)))) = 1000 \<and>
   append_sample ''cpu_utilization'' ''gnb-001''
     \<lparr>s_timestamp = ''2024-01-01T00:02:00'', s_value = 70\<rparr> full_store =
   Inr [(''cpu_utilization'',
         [(''gnb-001'',
           replicate 999 \<lparr>s_timestamp = ''2024-01-01T00:01:00'', s_value = 60\<rparr> @
           [\<lparr>s_timestamp = ''2024-01-01T00:02:00'', s_value = 70\<rparr>])])]"
proof -
  have k: "map_of full_store ''cpu_utilization'' = Some (snd (hd full_store))"
    by (simp add: full_store_def)
  have n: "map_of (snd (hd full_store)) ''gnb-001'' = Some (snd (hd (snd (hd full_store))))"
    by (simp add: full_store_def)
  have full: "length (snd (hd (snd (hd full_store)))) = 1000"
    by (simp add: full_store_def)
  from C4_window_fifo_bounded [OF k n full, of "\<lparr>s_timestamp = ''2024-01-01T00:02:00'', s_value = 70\<rparr>"]
    full
  show ?thesis
    by (auto simp: full_store_def append_sample_def deque_append_def maxlen_def)
qed

subsection \<open>Threshold evaluation\<close>

lemma analyze_nodes_mem:
  "i \<in> set (analyze_nodes kpi nds issues) \<longleftrightarrow>
     i \<in> set issues \<or>
     (\<exists>n d. (n, d) \<in> set nds \<and> d \<noteq> [] \<and> severity_of kpi (s_value (last d)) \<noteq> ''OK'' \<and>
        i = issue_of kpi n (last d))"
proof (induction nds arbitrary: issues)
  case Nil
  then show ?case by simp
next
  case (Cons entry rest)
  obtain n d where e: "entry = (n, d)" by (cases entry)
  show ?case
    unfolding e by (simp add: Cons.IH) blast
qed

lemma analyze_kpis_mem:
  "analyze_kpis kpis data issues = Inr r \<Longrightarrow>
   i \<in> set r \<longleftrightarrow>
     i \<in> set issues \<or>
     (\<exists>kpi nds n d.
        kpi \<in> set kpis \<and> map_of data (k_id kpi) = Some nds \<and> (n, d) \<in> set nds \<and> d \<noteq> [] \<and>
        severity_of kpi (s_value (last d)) \<noteq> ''OK'' \<and> i = issue_of kpi n (last d))"
proof (induction kpis arbitrary: issues)
  case Nil
  then show ?case by auto
next
  case (Cons kpi rest)
  then obtain nds where nds: "map_of data (k_id kpi) = Some nds"
    by (cases "map_of data (k_id kpi)") auto
  with Cons.prems have "analyze_kpis rest data (analyze_nodes kpi nds issues) = Inr r" by simp
  from Cons.IH [OF this] have r: "i \<in> set r \<longleftrightarrow>
     (i \<in> set issues \<or>
      (\<exists>n d. (n, d) \<in> set nds \<and> d \<noteq> [] \<and> severity_of kpi (s_value (last d)) \<noteq> ''OK'' \<and>
        i = issue_of kpi n (last d))) \<or>
     (\<exists>kpi nds n d.
        kpi \<in> set rest \<and> map_of data (k_id kpi) = Some nds \<and> (n, d) \<in> set nds \<and> d \<noteq> [] \<and>
        severity_of kpi (s_value (last d)) \<noteq> ''OK'' \<and> i = issue_of kpi n (last d))"
    by (simp add: analyze_nodes_mem)
  show ?case
  proof
    assume "i \<in> set r"
    with r nds show "i \<in> set issues \<or>
     (\<exists>kpi' nds n d.
        kpi' \<in> set (kpi # rest) \<and> map_of data (k_id kpi') = Some nds \<and> (n, d) \<in> set nds \<and>
        d \<noteq> [] \<and> severity_of kpi' (s_value (last d)) \<noteq> ''OK'' \<and> i = issue_of kpi' n (last d))"
      by (metis list.set_intros(1,2))
  next
    assume "i \<in> set issues \<or>
     (\<exists>kpi' nds n d.
        kpi' \<in> set (kpi # rest) \<and> map_of data (k_id kpi') = Some nds \<and> (n, d) \<in> set nds \<and>
        d \<noteq> [] \<and> severity_of kpi' (s_value (last d)) \<noteq> ''OK'' \<and> i = issue_of kpi' n (last d))"
    with nds have "(i \<in> set issues \<or>
      (\<exists>n d. (n, d) \<in> set nds \<and> d \<noteq> [] \<and> severity_of kpi (s_value (last d)) \<noteq> ''OK'' \<and>
        i = issue_of kpi n (last d))) \<or>
     (\<exists>kpi nds n d.
        kpi \<in> set rest \<and> map_of data (k_id kpi) = Some nds \<and> (n, d) \<in> set nds \<and> d \<noteq> [] \<and>
        severity_of kpi (s_value (last d)) \<noteq> ''OK'' \<and> i = issue_of kpi n (last d))"
      by (metis option.inject set_ConsD)
    with r show "i \<in> set r" by simp
  qed
qed

lemma issue_of_severity [simp]: "i_severity (issue_of kpi n smp) = severity_of kpi (s_value smp)"
  by (simp add: issue_of_def)

text \<open>
  C3.  The severity of a value: for the categories availability and quality it is CRITICAL
  below the critical threshold, WARNING from the critical threshold up to (not including)
  the warning threshold and OK otherwise; for performance and resource it is CRITICAL
  above the critical threshold, WARNING above the warning threshold up to (including) the
  critical one and OK otherwise.  The issue list of an evaluation holds exactly the issue of
  the latest sample of every non-empty window whose severity is not OK.  Availability 99.4
  against warning 99.9 and critical 99.5 is CRITICAL; a resource value 82 against warning
  80 and critical 90 is WARNING, and 75 is OK.
\<close>

theorem C3_threshold_evaluation:
  "(k_category kpi = ''availability'' \<or> k_category kpi = ''quality'' \<longrightarrow>
      severity_of kpi v =
        (if v < k_critical_threshold kpi then ''CRITICAL''
         else if k_critical_threshold kpi \<le> v \<and> v < k_warning_threshold kpi then ''WARNING''
         else ''OK'')) \<and>
   (k_category kpi = ''performance'' \<or> k_category kpi = ''resource'' \<longrightarrow>
      severity_of kpi v =
        (if v > k_critical_threshold kpi then ''CRITICAL''
         else if k_warning_threshold kpi < v \<and> v \<le> k_critical_threshold kpi then ''WARNING''
         else ''OK'')) \<and>
   (analyze_kpi_data s = Inr issues \<longrightarrow>
      (\<forall>i. i \<in> set issues \<longleftrightarrow>
         (\<exists>kpi' nds n d.
            kpi' \<in> set kpi_definitions \<and> map_of (kpi_data s) (k_id kpi') = Some nds \<and>
            (n, d) \<in> set nds \<and> d \<noteq> [] \<and> severity_of kpi' (s_value (last d)) \<noteq> ''OK'' \<and>
            i = issue_of kpi' n (last d))) \<and>
      (\<forall>i \<in> set issues. i_severity i \<noteq> ''OK'')) \<and>
   (k_category kpi = ''availability'' \<and> k_warning_threshold kpi = 99.9 \<and>
    k_critical_threshold kpi = 99.5 \<longrightarrow> severity_of kpi 99.4 = ''CRITICAL'') \<and>
   (k_category kpi = ''resource'' \<and> k_warning_threshold kpi = 80 \<and>
    k_critical_threshold kpi = 90 \<longrightarrow>
      severity_of kpi 82 = ''WARNING'' \<and> severity_of kpi 75 = ''OK'')"
proof (intro conjI impI allI)
  assume "k_category kpi = ''availability'' \<or> k_category kpi = ''quality''"
  then show "severity_of kpi v =
        (if v < k_critical_threshold kpi then ''CRITICAL''
         else if k_critical_threshold kpi \<le> v \<and> v < k_warning_threshold kpi then ''WARNING''
         else ''OK'')"
    by (auto simp: severity_of_def)
next
  assume "k_category kpi = ''performance'' \<or> k_category kpi = ''resource''"
  then show "severity_of kpi v =
        (if v > k_critical_threshold kpi then ''CRITICAL''
         else if k_warning_threshold kpi < v \<and> v \<le> k_critical_threshold kpi then ''WARNING''
         else ''OK'')"
    by (auto simp: severity_of_def)
next
  fix i assume "analyze_kpi_data s = Inr issues"
  then have "analyze_kpis kpi_definitions (kpi_data s) [] = Inr issues"
    by (simp add: analyze_kpi_data_def)
  from analyze_kpis_mem [OF this, of i]
  show "i \<in> set issues \<longleftrightarrow>
         (\<exists>kpi' nds n d.
            kpi' \<in> set kpi_definitions \<and> map_of (kpi_data s) (k_id kpi') = Some nds \<and>
            (n, d) \<in> set nds \<and> d \<noteq> [] \<and> severity_of kpi' (s_value (last d)) \<noteq> ''OK'' \<and>
            i = issue_of kpi' n (last d))"
    by simp
next
  assume "analyze_kpi_data s = Inr issues"
  then have a: "analyze_kpis kpi_definitions (kpi_data s) [] = Inr issues"
    by (simp add: analyze_kpi_data_def)
  show "\<forall>i \<in> set issues. i_severity i \<noteq> ''OK''"
  proof
    fix i assume "i \<in> set issues"
    with analyze_kpis_mem [OF a, of i] show "i_severity i \<noteq> ''OK''" by auto
  qed
next
  assume "k_category kpi = ''availability'' \<and> k_warning_threshold kpi = 99.9 \<and>
    k_critical_threshold kpi = 99.5"
  then show "severity_of kpi 99.4 = ''CRITICAL''"
    by (simp add: severity_of_def)
next
  assume r: "k_category kpi = ''resource'' \<and> k_warning_threshold kpi = 80 \<and>
    k_critical_threshold kpi = 90"
  then show "severity_of kpi 82 = ''WARNING''"
    by (simp add: severity_of_def)
  from r show "severity_of kpi 75 = ''OK''"
    by (simp add: severity_of_def)
qed

theorem C3_threshold_witness:
  "k_category (kpi_definitions ! 3) = ''resource'' \<and>
   severity_of (kpi_definitions ! 3) 82 = ''WARNING'' \<and>
   severity_of (kpi_definitions ! 3) 75 = ''OK'' \<and>
   map (\<lambda>i. (i_kpi_id i, i_node_id i, i_value i, i_severity i))
     (projr (analyze_kpi_data example_kpi_state)) =
     [(''node_availability'', ''gnb-001'', 99.4, ''CRITICAL''),
      (''cpu_utilization'', ''gnb-001'', 82, ''WARNING'')]"
proof -
  have r: "analyze_kpi_data example_kpi_state = Inr (projr (analyze_kpi_data example_kpi_state))"
    by (simp add: analyze_kpi_data_def example_kpi_state_def kpi_init_def kpi_definitions_def)
  have c: "k_category (kpi_definitions ! 3) = ''resource''"
    "k_warning_threshold (kpi_definitions ! 3) = 80"
    "k_critical_threshold (kpi_definitions ! 3) = 90"
    by (simp_all add: kpi_definitions_def)
  have e: "map (\<lambda>i. (i_kpi_id i, i_node_id i, i_value i, i_severity i))
     (projr (analyze_kpi_data example_kpi_state)) =
     [(''node_availability'', ''gnb-001'', 99.4, ''CRITICAL''),
      (''cpu_utilization'', ''gnb-001'', 82, ''WARNING'')]"
    by (simp add: analyze_kpi_data_def example_kpi_state_def kpi_init_def kpi_definitions_def
        severity_of_def issue_of_def)
  from C3_threshold_evaluation [of "kpi_definitions ! 3" 82 example_kpi_state
      "projr (analyze_kpi_data example_kpi_state)"] r c e
  show ?thesis by simp
qed

section \<open>Properties of the event orchestrator\<close>

lemma map_type_set_status [simp]: "map n_type (set_status i st ns) = map n_type ns"
proof (cases "i < length ns")
  case True
  then show ?thesis by (simp add: set_status_def map_update list_update_same_conv)
next
  case False
  then show ?thesis by (simp add: set_status_def list_update_beyond)
qed

lemma length_set_status [simp]: "length (set_status i st ns) = length ns"
  by (simp add: set_status_def)

lemma sset_stl_subset: "sset (stl r) \<subseteq> sset r"
  by (auto dest: stl_sset)

lemma world_step_refl [simp]: "world_step w w"
  by (simp add: world_step_def)

lemma world_step_trans: "world_step w w1 \<Longrightarrow> world_step w1 w2 \<Longrightarrow> world_step w w2"
  by (auto simp: world_step_def)

lemma world_step_prims [simp]:
  "world_step w (snd (py_random w))"
  "world_step w (snd (py_uniform a b w))"
  "world_step w (snd (py_randint c d w))"
  "world_step w (snd (py_choice xs w))"
  "world_step w (snd (now_iso w))"
  using sset_stl_subset [of "rand w"]
  by (simp_all add: world_step_def py_random_def py_uniform_def py_randint_def py_choice_def
      now_iso_def)

lemma world_step_prims_trans [simp]:
  "world_step w w0 \<Longrightarrow> world_step w (snd (py_random w0))"
  "world_step w w0 \<Longrightarrow> world_step w (snd (py_uniform a b w0))"
  "world_step w w0 \<Longrightarrow> world_step w (snd (py_randint c d w0))"
  "world_step w w0 \<Longrightarrow> world_step w (snd (py_choice xs w0))"
  "world_step w w0 \<Longrightarrow> world_step w (snd (now_iso w0))"
  by (erule world_step_trans, simp)+

lemma event_details_effect:
  "event_details t i w s = (d, w1, s1) \<Longrightarrow>
   events s1 = events s \<and> map n_type (evt_network_nodes s1) = map n_type (evt_network_nodes s) \<and>
   world_step w w1"
  by (cases t) (auto simp: split_def)

lemma generate_event_effect:
  "generate_event t i w s = (e, w1, s1) \<Longrightarrow>
   events s1 = events s @ [e] \<and> e_id e = int (length (events s)) + 1 \<and>
   e_type e = event_type_name t \<and>
   map n_type (evt_network_nodes s1) = map n_type (evt_network_nodes s) \<and>
   world_step w w1"
proof -
  assume g: "generate_event t i w s = (e, w1, s1)"
  obtain d w2 s2 where ed: "event_details t i (snd (now_iso w)) s = (d, w2, s2)"
    by (cases "event_details t i (snd (now_iso w)) s") auto
  from event_details_effect [OF ed] have "world_step w w2"
    "events s2 = events s" "map n_type (evt_network_nodes s2) = map n_type (evt_network_nodes s)"
    by (auto intro: world_step_trans [of w "snd (now_iso w)"])
  with g ed show ?thesis
    by (auto simp: generate_event_def Let_def split_def)
qed

lemma scenario_targets_cong:
  "map n_type ns1 = map n_type ns \<Longrightarrow> scenario_targets t ns1 = scenario_targets t ns"
proof -
  assume m: "map n_type ns1 = map n_type ns"
  then have l: "length ns1 = length ns" by (rule map_eq_imp_length_eq)
  have "n_type (ns1 ! i) = n_type (ns ! i)" if "i < length ns" for i
    using that m l by (metis nth_map)
  then have "[i \<leftarrow> [0..<length ns]. n_type (ns1 ! i) = t] = [i \<leftarrow> [0..<length ns]. n_type (ns ! i) = t]"
    by (intro filter_cong) auto
  with l show ?thesis by (simp add: scenario_targets_def nodes_of_type_def)
qed

lemma run_scenario_events_effect:
  "run_scenario_events specs w s = (w1, s1) \<Longrightarrow>
   \<exists>new. events s1 = events s @ new \<and>
     subseq (map e_type new) (map (\<lambda>d. event_type_name (es_type d)) specs) \<and>
     map n_type (evt_network_nodes s1) = map n_type (evt_network_nodes s) \<and>
     sset (rand w1) \<subseteq> sset (rand w) \<and>
     ((\<forall>d \<in> set specs. (\<forall>r \<in> sset (rand w). r \<le> es_probability d) \<and>
          scenario_targets (es_target_type d) (evt_network_nodes s) \<noteq> []) \<longrightarrow>
      map e_type new = map (\<lambda>d. event_type_name (es_type d)) specs)"
proof (induction specs arbitrary: w s)
  case Nil
  then show ?case by simp
next
  case (Cons d rest)
  let ?w0 = "snd (py_random w)"
  have w0: "world_step w ?w0" by simp
  have r0: "fst (py_random w) \<in> sset (rand w)"
    by (simp add: py_random_def shd_sset)
  show ?case
  proof (cases "fst (py_random w) > es_probability d \<or>
      scenario_targets (es_target_type d) (evt_network_nodes s) = []")
    case True
    with Cons.prems have "run_scenario_events rest ?w0 s = (w1, s1)"
      by (cases "es_probability d < fst (py_random w)") auto
    from Cons.IH [OF this] obtain new where new: "events s1 = events s @ new"
      "subseq (map e_type new) (map (\<lambda>d. event_type_name (es_type d)) rest)"
      "map n_type (evt_network_nodes s1) = map n_type (evt_network_nodes s)"
      "sset (rand w1) \<subseteq> sset (rand ?w0)" by blast
    from True r0 have "\<not> ((\<forall>r \<in> sset (rand w). r \<le> es_probability d) \<and>
          scenario_targets (es_target_type d) (evt_network_nodes s) \<noteq> [])"
      by (auto simp: not_le)
    with new w0 show ?thesis
      by (intro exI [of _ new]) (auto simp: world_step_def)
  next
    case False
    let ?ts = "scenario_targets (es_target_type d) (evt_network_nodes s)"
    obtain i w2 where c: "py_choice ?ts ?w0 = (i, w2)" by (cases "py_choice ?ts ?w0") auto
    obtain e w3 s3 where g: "generate_event (es_type d) i w2 s = (e, w3, s3)"
      by (cases "generate_event (es_type d) i w2 s") auto
    obtain pause w4 where u: "py_uniform 1 5 w3 = (pause, w4)" by (cases "py_uniform 1 5 w3") auto
    from False c g u Cons.prems
    have run: "run_scenario_events rest (py_sleep pause w4) s3 = (w1, s1)" by auto
    note ge = generate_event_effect [OF g]
    from c have "world_step ?w0 w2" by (metis snd_conv world_step_prims(4))
    moreover from u have "world_step w3 w4" by (metis snd_conv world_step_prims(2))
    ultimately have sub: "sset (rand (py_sleep pause w4)) \<subseteq> sset (rand w)"
      using w0 ge by (auto simp: world_step_def py_sleep_def)
    from Cons.IH [OF run] obtain new where new: "events s1 = events s3 @ new"
      "subseq (map e_type new) (map (\<lambda>d. event_type_name (es_type d)) rest)"
      "map n_type (evt_network_nodes s1) = map n_type (evt_network_nodes s3)"
      "sset (rand w1) \<subseteq> sset (rand (py_sleep pause w4))"
      "(\<forall>d \<in> set rest. (\<forall>r \<in> sset (rand (py_sleep pause w4)). r \<le> es_probability d) \<and>
          scenario_targets (es_target_type d) (evt_network_nodes s3) \<noteq> []) \<longrightarrow>
        map e_type new = map (\<lambda>d. event_type_name (es_type d)) rest" by blast
    have tg: "scenario_targets t (evt_network_nodes s3) = scenario_targets t (evt_network_nodes s)" for t
      using ge by (intro scenario_targets_cong) simp
    have "events s1 = events s @ (e # new)" using new ge by simp
    moreover have "subseq (map e_type (e # new)) (map (\<lambda>d. event_type_name (es_type d)) (d # rest))"
      using new ge by simp
    moreover have "map n_type (evt_network_nodes s1) = map n_type (evt_network_nodes s)"
      using new ge by simp
    moreover have "sset (rand w1) \<subseteq> sset (rand w)" using new sub by blast
    moreover have "(\<forall>d' \<in> set (d # rest). (\<forall>r \<in> sset (rand w). r \<le> es_probability d') \<and>
          scenario_targets (es_target_type d') (evt_network_nodes s) \<noteq> []) \<longrightarrow>
        map e_type (e # new) = map (\<lambda>d. event_type_name (es_type d)) (d # rest)"
      using new(5) sub tg ge by auto
    ultimately show ?thesis by blast
  qed
qed

lemma run_scenario_events_skip:
  "fst (py_random w) > es_probability d \<or>
   scenario_targets (es_target_type d) (evt_network_nodes s) = [] \<Longrightarrow>
   run_scenario_events (d # rest) w s = run_scenario_events rest (snd (py_random w)) s"
  by (cases "es_probability d < fst (py_random w)") auto




lemma stress_nodes_effect:
  "stress_nodes is w s = (w1, s1) \<Longrightarrow>
   \<exists>mid. events s1 = events s @ mid \<and> (\<forall>e \<in> set mid. e_type e = ''RESOURCE_EXHAUSTION'') \<and>
     world_step w w1"
proof (induction "is" arbitrary: w s)
  case Nil
  then show ?case by simp
next
  case (Cons i rest)
  let ?w0 = "snd (py_random w)"
  show ?case
  proof (cases "fst (py_random w) < 0.7")
    case True
    obtain e w2 s2 where g: "generate_event RESOURCE_EXHAUSTION i ?w0 s = (e, w2, s2)"
      by (cases "generate_event RESOURCE_EXHAUSTION i ?w0 s") auto
    note ge = generate_event_effect [OF g]
    from True g Cons.prems have "stress_nodes rest w2 s2 = (w1, s1)" by simp
    from Cons.IH [OF this] obtain mid where mid: "events s1 = events s2 @ mid"
      "\<forall>e \<in> set mid. e_type e = ''RESOURCE_EXHAUSTION''"
      "world_step w2 w1" by blast
    have "world_step w w1"
      using ge mid(3) by (auto intro: world_step_trans [of w ?w0] world_step_trans)
    moreover have "events s1 = events s @ (e # mid)" using ge mid by simp
    moreover have "\<forall>e' \<in> set (e # mid). e_type e' = ''RESOURCE_EXHAUSTION''"
      using ge mid by simp
    ultimately show ?thesis by blast
  next
    case False
    with Cons.prems have "stress_nodes rest ?w0 s = (w1, s1)" by simp
    from Cons.IH [OF this] obtain mid where mid: "events s1 = events s @ mid"
      "\<forall>e \<in> set mid. e_type e = ''RESOURCE_EXHAUSTION''" "world_step ?w0 w1" by blast
    from mid(3) have "world_step w w1" by (rule world_step_trans [rotated]) simp
    with mid show ?thesis by blast
  qed
qed

lemma load_levels_None: "load_levels x w = None \<longleftrightarrow> x \<notin> {''low'', ''medium'', ''high''}"
  by (simp add: load_levels_def split_def)

lemma load_levels_world: "load_levels x w = Some (loads, w1) \<Longrightarrow> world_step w w1"
  by (auto simp: load_levels_def split_def split: if_splits)

lemma complete_load_test_effect:
  "complete_load_test t ts start w s = (r, w1, s1) \<Longrightarrow>
   r = Inr True \<and> world_step w w1 \<and>
   (\<exists>c. events s1 = events s @ [c] \<and> e_type c = ''LOAD_TEST_COMPLETED'' \<and>
      e_id c = int (length (events s)) + 1 \<and>
      map_of (e_details c) ''original_test_id'' = Some (PInt (e_id start)))"
  by (auto simp: complete_load_test_def completion_event_def split_def)

lemma run_load_test_no_nodes:
  "nodes_of_type t (evt_network_nodes s) = [] \<Longrightarrow> run_load_test t d x w s = (Inr False, w, s)"
  by (simp add: run_load_test_def)

lemma run_load_test_bad_intensity:
  "x \<notin> {''low'', ''medium'', ''high''} \<Longrightarrow> run_load_test t d x w s = (Inr False, w, s)"
  using load_levels_None [of x w] by (simp add: run_load_test_def Let_def)

lemma run_load_test_valid:
  assumes nodes: "nodes_of_type t (evt_network_nodes s) \<noteq> []"
    and x: "x \<in> {''low'', ''medium'', ''high''}"
    and d: "0 \<le> d"
  shows "\<exists>w1 s1 start mid completion.
    run_load_test t d x w s = (Inr True, w1, s1) \<and>
    events s1 = events s @ [start] @ mid @ [completion] \<and>
    e_type start = ''LOAD_TEST'' \<and> e_id start = int (length (events s)) + 1 \<and>
    e_type completion = ''LOAD_TEST_COMPLETED'' \<and>
    e_id completion = int (length (events s)) + int (length mid) + 2 \<and>
    map_of (e_details completion) ''original_test_id'' = Some (PInt (e_id start)) \<and>
    (\<forall>e \<in> set mid. e_type e = ''RESOURCE_EXHAUSTION'') \<and> (x \<noteq> ''high'' \<longrightarrow> mid = []) \<and>
    slept w1 = slept w @ [of_int (min d 5)]"
proof -
  let ?ts = "nodes_of_type t (evt_network_nodes s)"
  from x obtain loads w0 where ll: "load_levels x w = Some (loads, w0)"
    using load_levels_None [of x w] by (cases "load_levels x w") auto
  let ?t1 = "fst (now_iso w0)"
  let ?w2 = "snd (now_iso w0)"
  let ?start = "load_test_event t ?ts d x loads ?t1 s"
  let ?s1 = "s\<lparr>events := events s @ [?start]\<rparr>"
  let ?w3 = "py_sleep (of_int (min d 5)) ?w2"
  have st: "e_type ?start = ''LOAD_TEST''" "e_id ?start = int (length (events s)) + 1"
    by (simp_all add: load_test_event_def split_def)
  have w2: "world_step w ?w2"
    using load_levels_world [OF ll] by simp
  then have sl3: "slept ?w3 = slept w @ [of_int (min d 5)]"
    by (simp add: world_step_def py_sleep_def)
  obtain w4 s4 where mid_run:
    "(if x = ''high'' then stress_nodes ?ts ?w3 ?s1 else (?w3, ?s1)) = (w4, s4)"
    by (cases "if x = ''high'' then stress_nodes ?ts ?w3 ?s1 else (?w3, ?s1)") auto
  have "\<exists>mid. events s4 = events ?s1 @ mid \<and> (\<forall>e \<in> set mid. e_type e = ''RESOURCE_EXHAUSTION'') \<and>
     (x \<noteq> ''high'' \<longrightarrow> mid = []) \<and> slept w4 = slept ?w3"
  proof (cases "x = ''high''")
    case True
    with mid_run have "stress_nodes ?ts ?w3 ?s1 = (w4, s4)" by simp
    from stress_nodes_effect [OF this] True show ?thesis
      by (auto simp: world_step_def)
  next
    case False
    with mid_run show ?thesis by auto
  qed
  then obtain mid where mid: "events s4 = events ?s1 @ mid"
    "\<forall>e \<in> set mid. e_type e = ''RESOURCE_EXHAUSTION''" "x \<noteq> ''high'' \<longrightarrow> mid = []"
    "slept w4 = slept ?w3" by blast
  obtain r w5 s5 where c: "complete_load_test t ?ts ?start w4 s4 = (r, w5, s5)"
    by (cases "complete_load_test t ?ts ?start w4 s4") auto
  from complete_load_test_effect [OF c] obtain completion where
    comp: "r = Inr True" "world_step w4 w5" "events s5 = events s4 @ [completion]"
      "e_type completion = ''LOAD_TEST_COMPLETED''" "e_id completion = int (length (events s4)) + 1"
      "map_of (e_details completion) ''original_test_id'' = Some (PInt (e_id ?start))"
    by blast
  from d have nd: "\<not> min d 5 < 0" by simp
  from nodes ll nd mid_run c comp(1)
  have run: "run_load_test t d x w s = (Inr True, w5, s5)"
    by (cases "x = ''high''") (simp_all add: run_load_test_def Let_def split_def)
  moreover have "events s5 = events s @ [?start] @ mid @ [completion]"
    using comp mid by simp
  moreover have "e_id completion = int (length (events s)) + int (length mid) + 2"
    using comp mid by simp
  moreover have "slept w5 = slept w @ [of_int (min d 5)]"
    using comp(2) mid(4) sl3 by (simp add: world_step_def)
  ultimately show ?thesis
    using st comp(4,6) mid(2,3) by blast
qed

text \<open>With a negative duration \<^verbatim>\<open>time.sleep\<close> raises after the start event is appended.\<close>

lemma run_load_test_negative_duration:
  assumes nodes: "nodes_of_type t (evt_network_nodes s) \<noteq> []"
    and x: "x \<in> {''low'', ''medium'', ''high''}"
    and d: "d < 0"
  shows "\<exists>w1 s1 start. run_load_test t d x w s = (Inl ValueError, w1, s1) \<and>
    events s1 = events s @ [start] \<and> e_type start = ''LOAD_TEST''"
proof -
  from x obtain loads w0 where ll: "load_levels x w = Some (loads, w0)"
    using load_levels_None [of x w] by (cases "load_levels x w") auto
  from nodes ll d show ?thesis
    by (simp add: run_load_test_def Let_def split_def load_test_event_def)
qed

lemma evt_inv_snoc:
  "evt_inv s \<Longrightarrow> events s1 = events s @ [e] \<Longrightarrow> e_id e = int (length (events s)) + 1 \<Longrightarrow>
   evt_inv s1"
  by (simp add: evt_inv_def)

lemma evt_inv_generate_event:
  "evt_inv s \<Longrightarrow> generate_event t i w s = (e, w1, s1) \<Longrightarrow> evt_inv s1"
  using generate_event_effect [of t i w s e w1 s1] by (auto intro: evt_inv_snoc)

lemma evt_inv_run_scenario_events:
  "evt_inv s \<Longrightarrow> run_scenario_events specs w s = (w1, s1) \<Longrightarrow> evt_inv s1"
proof (induction specs arbitrary: w s)
  case Nil
  then show ?case by simp
next
  case (Cons d rest)
  let ?w0 = "snd (py_random w)"
  show ?case
  proof (cases "fst (py_random w) > es_probability d \<or>
      scenario_targets (es_target_type d) (evt_network_nodes s) = []")
    case True
    from Cons.prems(2) have "run_scenario_events rest ?w0 s = (w1, s1)"
      by (simp only: run_scenario_events_skip [OF True])
    from Cons.IH [OF Cons.prems(1) this] show ?thesis .
  next
    case False
    let ?ts = "scenario_targets (es_target_type d) (evt_network_nodes s)"
    obtain i w2 where c: "py_choice ?ts ?w0 = (i, w2)" by (cases "py_choice ?ts ?w0") auto
    obtain e w3 s3 where g: "generate_event (es_type d) i w2 s = (e, w3, s3)"
      by (cases "generate_event (es_type d) i w2 s") auto
    obtain pause w4 where u: "py_uniform 1 5 w3 = (pause, w4)" by (cases "py_uniform 1 5 w3") auto
    from False c g u Cons.prems
    have run: "run_scenario_events rest (py_sleep pause w4) s3 = (w1, s1)" by auto
    from Cons.IH [OF evt_inv_generate_event [OF Cons.prems(1) g] run] show ?thesis .
  qed
qed

lemma evt_inv_random_events_loop:
  "evt_inv s \<Longrightarrow> random_events_loop n w s = Inr (w1, s1) \<Longrightarrow> evt_inv s1"
proof (induction n arbitrary: w s)
  case 0
  then show ?case by simp
next
  case (Suc n)
  obtain event_type w0 where c0: "py_choice all_event_types w = (event_type, w0)"
    by (cases "py_choice all_event_types w") auto
  from Suc.prems(2) c0 have ne: "evt_network_nodes s \<noteq> []"
    by (auto split: if_splits)
  obtain i w2 where c: "py_choice [0..<length (evt_network_nodes s)] w0 = (i, w2)"
    by (cases "py_choice [0..<length (evt_network_nodes s)] w0") auto
  obtain e w3 s3 where g: "generate_event event_type i w2 s = (e, w3, s3)"
    by (cases "generate_event event_type i w2 s") auto
  obtain pause w4 where u: "py_uniform 1 3 w3 = (pause, w4)" by (cases "py_uniform 1 3 w3") auto
  from Suc.prems(2) c0 ne c g u
  have run: "random_events_loop n (py_sleep pause w4) s3 = Inr (w1, s1)" by simp
  from Suc.IH [OF evt_inv_generate_event [OF Suc.prems(1) g] run] show ?case .
qed

lemma evt_inv_stress_nodes:
  "evt_inv s \<Longrightarrow> stress_nodes is w s = (w1, s1) \<Longrightarrow> evt_inv s1"
proof (induction "is" arbitrary: w s)
  case Nil
  then show ?case by simp
next
  case (Cons i rest)
  let ?w0 = "snd (py_random w)"
  show ?case
  proof (cases "fst (py_random w) < 0.7")
    case True
    obtain e w2 s2 where g: "generate_event RESOURCE_EXHAUSTION i ?w0 s = (e, w2, s2)"
      by (cases "generate_event RESOURCE_EXHAUSTION i ?w0 s") auto
    from True g Cons.prems have "stress_nodes rest w2 s2 = (w1, s1)" by simp
    from Cons.IH [OF evt_inv_generate_event [OF Cons.prems(1) g] this] show ?thesis .
  next
    case False
    with Cons.prems have "stress_nodes rest ?w0 s = (w1, s1)" by simp
    from Cons.IH [OF Cons.prems(1) this] show ?thesis .
  qed
qed

lemma evt_inv_run_load_test:
  assumes inv: "evt_inv s"
  shows "evt_inv (snd (snd (run_load_test t d x w s)))"
proof (cases "nodes_of_type t (evt_network_nodes s) = [] \<or> load_levels x w = None")
  case True
  with inv show ?thesis by (auto simp: run_load_test_def Let_def)
next
  case False
  let ?ts = "nodes_of_type t (evt_network_nodes s)"
  from False obtain loads w0 where ll: "load_levels x w = Some (loads, w0)" by auto
  let ?start = "load_test_event t ?ts d x loads (fst (now_iso w0)) s"
  let ?s1 = "s\<lparr>events := events s @ [?start]\<rparr>"
  let ?w3 = "py_sleep (of_int (min d 5)) (snd (now_iso w0))"
  have i1: "evt_inv ?s1"
    by (rule evt_inv_snoc [OF inv, of _ ?start]) (simp_all add: load_test_event_def split_def)
  show ?thesis
  proof (cases "d < 0")
    case True
    with False ll i1 show ?thesis by (simp add: run_load_test_def Let_def split_def)
  next
    case nonneg: False
    obtain w4 s4 where mid_run:
      "(if x = ''high'' then stress_nodes ?ts ?w3 ?s1 else (?w3, ?s1)) = (w4, s4)"
      by (cases "if x = ''high'' then stress_nodes ?ts ?w3 ?s1 else (?w3, ?s1)") auto
    have i4: "evt_inv s4"
    proof (cases "x = ''high''")
      case True
      with mid_run have "stress_nodes ?ts ?w3 ?s1 = (w4, s4)" by simp
      from evt_inv_stress_nodes [OF i1 this] show ?thesis .
    next
      case False
      with mid_run i1 show ?thesis by auto
    qed
    obtain r w5 s5 where c: "complete_load_test t ?ts ?start w4 s4 = (r, w5, s5)"
      by (cases "complete_load_test t ?ts ?start w4 s4") auto
    from complete_load_test_effect [OF c] i4 have "evt_inv s5"
      by (auto intro: evt_inv_snoc)
    moreover from nonneg have nd: "\<not> min d 5 < 0" by simp
    from False ll nonneg nd mid_run c
    have "run_load_test t d x w s = (r, w5, s5)"
      by (cases "x = ''high''") (simp_all add: run_load_test_def Let_def split_def)
    ultimately show ?thesis by simp
  qed
qed

lemma evt_reachable_inv: "evt_reachable s \<Longrightarrow> evt_inv s"
proof (induction rule: evt_reachable.induct)
  case init
  show ?case by (simp add: evt_inv_def evt_init_def)
next
  case (gen s t i w)
  then show ?case
    using evt_inv_generate_event [of s t i w] by (metis prod.collapse)
next
  case (scenario s w)
  then show ?case
    using evt_inv_run_scenario_events [of s] by (metis prod.collapse run_scenario_def split_def)
next
  case (random s w w1 s1)
  then show ?case
    using evt_inv_random_events_loop [of s] by (auto simp: generate_random_events_def split_def)
next
  case (load_test s t d x w)
  then show ?case by (simp add: evt_inv_run_load_test)
qed

lemma evt_inv_sorted: "evt_inv s \<Longrightarrow> sorted_wrt (<) (map e_id (events s))"
proof -
  assume "evt_inv s"
  then have m: "map e_id (events s) = map int [1..<Suc (length (events s))]"
    by (simp only: evt_inv_def)
  have "sorted_wrt (<) (map int [1..<Suc (length (events s))])"
    unfolding sorted_wrt_map by (simp del: upt_Suc)
  with m show ?thesis by (simp only:)
qed

text \<open>
  C7, as the code has it.  A load test on a node type without nodes (such as UPF, 120
  seconds, high, when there is no UPF) returns false and leaves log, nodes and environment
  as they were, and so does one with an intensity other than low, medium, high.  With nodes
  of the type, one of the three intensities and a duration that is not negative it returns
  true; the log grows by a start event, then the resource-exhaustion events of the high
  intensity, then a completion event whose \<^verbatim>\<open>original_test_id\<close> is the id of the start
  event; and it sleeps once, for the minimum of the duration and 5 seconds.
\<close>

theorem C7_load_test:
  "(nodes_of_type t (evt_network_nodes s) = [] \<longrightarrow> run_load_test t d x w s = (Inr False, w, s)) \<and>
   (nodes_of_type ''UPF'' (evt_network_nodes s) = [] \<longrightarrow>
      fst (run_load_test ''UPF'' 120 ''high'' w s) = Inr False \<and>
      events (snd (snd (run_load_test ''UPF'' 120 ''high'' w s))) = events s) \<and>
   (x \<notin> {''low'', ''medium'', ''high''} \<longrightarrow> run_load_test t d x w s = (Inr False, w, s)) \<and>
   (nodes_of_type t (evt_network_nodes s) \<noteq> [] \<and> x \<in> {''low'', ''medium'', ''high''} \<and> 0 \<le> d \<longrightarrow>
      (\<exists>w1 s1 start mid completion.
         run_load_test t d x w s = (Inr True, w1, s1) \<and>
         events s1 = events s @ [start] @ mid @ [completion] \<and>
         e_type start = ''LOAD_TEST'' \<and> e_type completion = ''LOAD_TEST_COMPLETED'' \<and>
         map_of (e_details completion) ''original_test_id'' = Some (PInt (e_id start)) \<and>
         (\<forall>e \<in> set mid. e_type e = ''RESOURCE_EXHAUSTION'') \<and> (x \<noteq> ''high'' \<longrightarrow> mid = []) \<and>
         slept w1 = slept w @ [of_int (min d 5)]))"
proof (intro conjI impI)
  assume "nodes_of_type t (evt_network_nodes s) = []"
  then show "run_load_test t d x w s = (Inr False, w, s)" by (rule run_load_test_no_nodes)
next
  assume n: "nodes_of_type ''UPF'' (evt_network_nodes s) = []"
  show "fst (run_load_test ''UPF'' 120 ''high'' w s) = Inr False"
    by (simp add: run_load_test_no_nodes [OF n])
  show "events (snd (snd (run_load_test ''UPF'' 120 ''high'' w s))) = events s"
    by (simp add: run_load_test_no_nodes [OF n])
next
  assume "x \<notin> {''low'', ''medium'', ''high''}"
  then show "run_load_test t d x w s = (Inr False, w, s)" by (rule run_load_test_bad_intensity)
next
  assume "nodes_of_type t (evt_network_nodes s) \<noteq> [] \<and> x \<in> {''low'', ''medium'', ''high''} \<and> 0 \<le> d"
  then have "nodes_of_type t (evt_network_nodes s) \<noteq> []" "x \<in> {''low'', ''medium'', ''high''}" "0 \<le> d"
    by simp_all
  from run_load_test_valid [OF this, of w]
  show "\<exists>w1 s1 start mid completion.
         run_load_test t d x w s = (Inr True, w1, s1) \<and>
         events s1 = events s @ [start] @ mid @ [completion] \<and>
         e_type start = ''LOAD_TEST'' \<and> e_type completion = ''LOAD_TEST_COMPLETED'' \<and>
         map_of (e_details completion) ''original_test_id'' = Some (PInt (e_id start)) \<and>
         (\<forall>e \<in> set mid. e_type e = ''RESOURCE_EXHAUSTION'') \<and> (x \<noteq> ''high'' \<longrightarrow> mid = []) \<and>
         slept w1 = slept w @ [of_int (min d 5)]"
    by blast
qed

lemma nodes_of_type_initial:
  "nodes_of_type ''UPF'' initial_nodes = [4]"
  "nodes_of_type ''UPF'' (take 4 initial_nodes) = []"
  by (simp_all add: nodes_of_type_def initial_nodes_def upt_rec)

theorem C7_load_test_witness:
  "nodes_of_type ''UPF'' (evt_network_nodes no_upf_state) = [] \<and>
   run_load_test ''UPF'' 120 ''high'' example_world no_upf_state =
     (Inr False, example_world, no_upf_state) \<and>
   run_load_test ''UPF'' 120 ''extreme'' example_world evt_init =
     (Inr False, example_world, evt_init) \<and>
   nodes_of_type ''UPF'' (evt_network_nodes evt_init) \<noteq> [] \<and>
   fst (run_load_test ''UPF'' 120 ''high'' example_world evt_init) = Inr True \<and>
   slept (fst (snd (run_load_test ''UPF'' 120 ''high'' example_world evt_init))) = [5] \<and>
   map (\<lambda>e. (e_id e, e_type e))
     (events (snd (snd (run_load_test ''UPF'' 120 ''high'' example_world evt_init)))) =
     [(1, ''LOAD_TEST''), (2, ''RESOURCE_EXHAUSTION''), (3, ''LOAD_TEST_COMPLETED'')]"
proof -
  have n0: "nodes_of_type ''UPF'' (evt_network_nodes no_upf_state) = []"
    by (simp add: no_upf_state_def nodes_of_type_initial)
  have n1: "nodes_of_type ''UPF'' (evt_network_nodes evt_init) \<noteq> []"
    by (simp add: evt_init_def nodes_of_type_initial)
  have x: "''extreme'' \<notin> {''low'', ''medium'', ''high''}" by simp
  have run: "map (\<lambda>e. (e_id e, e_type e))
     (events (snd (snd (run_load_test ''UPF'' 120 ''high'' example_world evt_init)))) =
     [(1, ''LOAD_TEST''), (2, ''RESOURCE_EXHAUSTION''), (3, ''LOAD_TEST_COMPLETED'')]"
    by (simp add: run_load_test_def evt_init_def nodes_of_type_initial load_levels_def
        py_uniform_def py_randint_def py_random_def py_choice_def now_iso_def py_sleep_def
        example_world_def load_test_event_def complete_load_test_def completion_event_def
        generate_event_def Let_def)
  from C7_load_test [of "''UPF''" no_upf_state 120 "''high''" example_world]
    C7_load_test [of "''UPF''" evt_init 120 "''extreme''" example_world]
    C7_load_test [of "''UPF''" evt_init 120 "''high''" example_world]
    n0 n1 x run
  show ?thesis by (auto simp: example_world_def)
qed

text \<open>
  C7, as the spec has it, fails for a negative duration: with UPF nodes present and the
  intensity low, a load test of -1 seconds appends the start event and then raises
  \<^verbatim>\<open>ValueError\<close> in \<^verbatim>\<open>time.sleep\<close>; it returns nothing and emits no completion event.
\<close>

theorem C7_negative_duration_counterexample:
  "negative_duration_run = (Inl ValueError, [(1, ''LOAD_TEST'')])"
  by (simp add: negative_duration_run_def run_load_test_def evt_init_def nodes_of_type_initial
      load_levels_def py_uniform_def py_randint_def now_iso_def example_world_def
      load_test_event_def Let_def)

section \<open>Identifiers\<close>

lemma random_events_loop_prefix:
  "random_events_loop n w s = Inr (w1, s1) \<Longrightarrow> prefix (events s) (events s1)"
proof (induction n arbitrary: w s)
  case 0
  then show ?case by simp
next
  case (Suc n)
  obtain event_type w0 where c0: "py_choice all_event_types w = (event_type, w0)"
    by (cases "py_choice all_event_types w") auto
  from Suc.prems c0 have ne: "evt_network_nodes s \<noteq> []"
    by (auto split: if_splits)
  obtain i w2 where c: "py_choice [0..<length (evt_network_nodes s)] w0 = (i, w2)"
    by (cases "py_choice [0..<length (evt_network_nodes s)] w0") auto
  obtain e w3 s3 where g: "generate_event event_type i w2 s = (e, w3, s3)"
    by (cases "generate_event event_type i w2 s") auto
  obtain pause w4 where u: "py_uniform 1 3 w3 = (pause, w4)" by (cases "py_uniform 1 3 w3") auto
  from Suc.prems c0 ne c g u
  have run: "random_events_loop n (py_sleep pause w4) s3 = Inr (w1, s1)" by simp
  from Suc.IH [OF run] generate_event_effect [OF g] show ?case
    by (auto dest: append_prefixD)
qed

lemma run_load_test_prefix: "prefix (events s) (events (snd (snd (run_load_test t d x w s))))"
proof (cases "nodes_of_type t (evt_network_nodes s) = [] \<or> x \<notin> {''low'', ''medium'', ''high''}")
  case True
  then show ?thesis
    by (auto simp: run_load_test_no_nodes run_load_test_bad_intensity)
next
  case False
  show ?thesis
  proof (cases "d < 0")
    case True
    with False run_load_test_negative_duration [of t s x d w] show ?thesis by auto
  next
    case nonneg: False
    with False run_load_test_valid [of t s x d w] show ?thesis by auto
  qed
qed

text \<open>
  C1.  In every reachable state of the alarm store the stored ids are exactly the ids
  assigned so far, 1 up to the counter (none is ever removed), and the id assigned by the
  next creation is greater than all of them; clearing changes neither the ids nor the
  counter, so an id is not assigned again after its alarm is cleared.  In every reachable
  state of the event log the ids increase strictly along the log, the id of the next
  generated event is greater than all of them, and scenario execution, random event
  generation and the load test only append to the log.
\<close>

theorem C1_identifiers_strictly_increasing:
  assumes oam: "oam_reachable s" and evt: "evt_reachable v"
  shows "fst ` set (alarms s) = {1..<alarm_id_counter s} \<and>
    distinct (map fst (alarms s)) \<and>
    (\<forall>k \<in> fst ` set (alarms s). k < fst (create_alarm nid ty sev d w s)) \<and>
    fst (create_alarm nid ty sev d w s) \<in> fst ` set (alarms (snd (snd (create_alarm nid ty sev d w s)))) \<and>
    map fst (alarms (snd (snd (clear_alarm k w s)))) = map fst (alarms s) \<and>
    (\<forall>k' \<in> fst ` set (alarms s).
        k' < fst (create_alarm nid ty sev d w' (snd (snd (clear_alarm k w s))))) \<and>
    sorted_wrt (<) (map e_id (events v)) \<and>
    (\<forall>e \<in> set (events v). e_id e < e_id (fst (generate_event t i w v))) \<and>
    events (snd (snd (generate_event t i w v))) = events v @ [fst (generate_event t i w v)] \<and>
    prefix (events v) (events (snd (run_scenario w v))) \<and>
    sorted_wrt (<) (map e_id (events (snd (run_scenario w v)))) \<and>
    (\<forall>w1 v1. generate_random_events w v = Inr (w1, v1) \<longrightarrow>
        prefix (events v) (events v1) \<and> sorted_wrt (<) (map e_id (events v1))) \<and>
    prefix (events v) (events (snd (snd (run_load_test tt dd x w v)))) \<and>
    sorted_wrt (<) (map e_id (events (snd (snd (run_load_test tt dd x w v)))))"
proof -
  from oam have inv: "oam_inv s" by (rule oam_reachable_inv)
  then have keys: "fst ` set (alarms s) = {1..<alarm_id_counter s}"
    and dist: "distinct (map fst (alarms s))"
    by (simp_all add: oam_inv_def)
  have lt: "\<forall>k \<in> fst ` set (alarms s). k < fst (create_alarm nid ty sev d w s)"
    using keys by (simp add: create_alarm_result)
  have new: "fst (create_alarm nid ty sev d w s) \<in>
      fst ` set (alarms (snd (snd (create_alarm nid ty sev d w s))))"
    by (simp add: create_alarm_result dom_update)
  have ck: "map fst (alarms (snd (snd (clear_alarm k w s)))) = map fst (alarms s)"
    by (rule clear_alarm_keys)
  have lt2: "\<forall>k' \<in> fst ` set (alarms s).
        k' < fst (create_alarm nid ty sev d w' (snd (snd (clear_alarm k w s))))"
    using keys by (simp add: create_alarm_result clear_alarm_frame)
  from evt have einv: "evt_inv v" by (rule evt_reachable_inv)
  then have so: "sorted_wrt (<) (map e_id (events v))" by (rule evt_inv_sorted)
  have ge: "events (snd (snd (generate_event t i w v))) = events v @ [fst (generate_event t i w v)]"
    "e_id (fst (generate_event t i w v)) = int (length (events v)) + 1"
    using generate_event_effect [of t i w v] by (metis prod.collapse)+
  have gl: "\<forall>e \<in> set (events v). e_id e < e_id (fst (generate_event t i w v))"
  proof
    fix e assume "e \<in> set (events v)"
    then have "e_id e \<in> set (map e_id (events v))" by simp
    with einv have "e_id e \<in> set (map int [1..<Suc (length (events v))])"
      by (simp only: evt_inv_def)
    then show "e_id e < e_id (fst (generate_event t i w v))"
      by (auto simp: ge(2) simp del: upt_Suc)
  qed
  have sc: "prefix (events v) (events (snd (run_scenario w v)))"
  proof -
    have "run_scenario_events (sc_events (fst (py_choice scenarios w))) (snd (py_choice scenarios w)) v
      = (fst (run_scenario w v), snd (run_scenario w v))"
      by (simp add: run_scenario_def split_def)
    from run_scenario_events_effect [OF this] show ?thesis by auto
  qed
  have sc2: "sorted_wrt (<) (map e_id (events (snd (run_scenario w v))))"
    by (rule evt_inv_sorted [OF evt_reachable_inv [OF evt_reachable.scenario [OF evt]]])
  have rn: "\<forall>w1 v1. generate_random_events w v = Inr (w1, v1) \<longrightarrow>
        prefix (events v) (events v1) \<and> sorted_wrt (<) (map e_id (events v1))"
  proof (intro allI impI)
    fix w1 v1 assume g: "generate_random_events w v = Inr (w1, v1)"
    then have "prefix (events v) (events v1)"
      by (auto simp: generate_random_events_def split_def dest: random_events_loop_prefix)
    moreover have "sorted_wrt (<) (map e_id (events v1))"
      by (rule evt_inv_sorted [OF evt_reachable_inv [OF evt_reachable.random [OF evt g]]])
    ultimately show "prefix (events v) (events v1) \<and> sorted_wrt (<) (map e_id (events v1))" ..
  qed
  have lt1: "prefix (events v) (events (snd (snd (run_load_test tt dd x w v))))"
    by (rule run_load_test_prefix)
  have lt3: "sorted_wrt (<) (map e_id (events (snd (snd (run_load_test tt dd x w v)))))"
    by (rule evt_inv_sorted [OF evt_reachable_inv [OF evt_reachable.load_test [OF evt]]])
  from keys dist lt new ck lt2 so gl ge(1) sc sc2 rn lt1 lt3 show ?thesis
    by (intro conjI)
qed

theorem C1_identifiers_witness:
  "oam_reachable cleared_once \<and> evt_reachable loaded_log \<and>
   map (\<lambda>e. (fst e, a_status (snd e))) (alarms cleared_once) = [(1, ''cleared'')] \<and>
   fst (create_alarm ''gnb-001'' EQUIPMENT CRITICAL ''Node gnb-001 is down'' example_world
          cleared_once) = 2 \<and>
   map e_id (events loaded_log) = [1, 2, 3] \<and>
   e_id (fst (generate_event FAILOVER 4 example_world loaded_log)) = 4"
proof -
  have r1: "oam_reachable cleared_once"
    unfolding cleared_once_def
    by (rule oam_reachable.clear [OF oam_reachable.create [OF oam_reachable.init]])
  have r2: "evt_reachable loaded_log"
    unfolding loaded_log_def by (rule evt_reachable.load_test [OF evt_reachable.init])
  have a: "map (\<lambda>e. (fst e, a_status (snd e))) (alarms cleared_once) = [(1, ''cleared'')]"
    "fst (create_alarm ''gnb-001'' EQUIPMENT CRITICAL ''Node gnb-001 is down'' example_world
          cleared_once) = 2"
    by (simp_all add: cleared_once_def create_alarm_def clear_alarm_def oam_init_def now_iso_def)
  have ev: "map e_id (events loaded_log) = [1, 2, 3]"
    by (simp add: loaded_log_def run_load_test_def evt_init_def nodes_of_type_initial
        load_levels_def py_uniform_def py_randint_def py_random_def py_choice_def now_iso_def
        py_sleep_def example_world_def load_test_event_def complete_load_test_def
        completion_event_def generate_event_def Let_def)
  have "length (map e_id (events loaded_log)) = 3"
    by (simp only: ev) simp
  then have "length (events loaded_log) = 3"
    by (simp only: length_map)
  then have g: "e_id (fst (generate_event FAILOVER 4 example_world loaded_log)) = 4"
    by (simp add: generate_event_def Let_def split_def)
  from C1_identifiers_strictly_increasing [OF r1 r2, of "''gnb-001''" EQUIPMENT CRITICAL
      "''Node gnb-001 is down''" example_world 1 example_world FAILOVER 4 "''UPF''" 120 "''high''"]
  show ?thesis by (simp only: r1 r2 a ev g simp_thms)
qed

section \<open>Independence of the node lists\<close>

lemma bind_err_Inr: "bind_err m f = Inr r \<longleftrightarrow> (\<exists>x. m = Inr x \<and> f x = Inr r)"
  by (cases m) (simp_all add: bind_err_def)

lemma deque_append_last: "deque_append d x \<noteq> [] \<and> last (deque_append d x) = x"
  by (cases d) (auto simp: deque_append_def maxlen_def Let_def)

lemma append_sample_other:
  "append_sample k n x data = Inr data1 \<Longrightarrow> k' \<noteq> k \<Longrightarrow>
   window_of data1 k' n' = window_of data k' n'"
  by (auto simp: append_sample_def window_of_def update_conv' split: option.splits)

lemma append_sample_same:
  "append_sample k n x data = Inr data1 \<Longrightarrow>
   \<exists>d. window_of data1 k n = Some d \<and> d \<noteq> [] \<and> last d = x"
  by (auto simp: append_sample_def window_of_def update_conv' deque_append_last
      split: option.splits)

lemma collect_node_kpis_availability:
  assumes "collect_node_kpis node w s = Inr (w1, s1)"
  shows "\<exists>d. window_of (kpi_data s1) ''node_availability'' (n_id node) = Some d \<and> d \<noteq> [] \<and>
     s_value (last d) = (if n_status node = ''active'' then 100 else 0) \<and>
     kpi_network_nodes s1 = kpi_network_nodes s"
proof -
  let ?nid = "n_id node"
  let ?smp = "\<lparr>s_timestamp = fst (now_iso w),
    s_value = (if n_status node = ''active'' then 100 else 0)\<rparr>"
  from assms obtain d1 d2 d3 d4 d5 d6 d7 x2 x3 x4 x5 x6 x7 where
    a1: "append_sample ''node_availability'' ?nid ?smp (kpi_data s) = Inr d1" and
    a2: "append_sample ''cpu_utilization'' ?nid x2 d1 = Inr d2" and
    a3: "append_sample ''memory_utilization'' ?nid x3 d2 = Inr d3" and
    a4: "append_sample ''service_latency'' ?nid x4 d3 = Inr d4" and
    a5: "append_sample ''error_rate'' ?nid x5 d4 = Inr d5" and
    a6: "append_sample ''throughput'' ?nid x6 d5 = Inr d6" and
    a7: "append_sample ''connection_success_rate'' ?nid x7 d6 = Inr d7" and
    rest: "kpi_data s1 = d7 \<or> (\<exists>x8. append_sample ''recovery_time'' ?nid x8 d7 = Inr (kpi_data s1))"
      and nodes: "kpi_network_nodes s1 = kpi_network_nodes s"
    by (auto simp: collect_node_kpis_def Let_def split_def bind_err_Inr split: if_splits) blast+
  from append_sample_same [OF a1] obtain d where
    d: "window_of d1 ''node_availability'' ?nid = Some d" "d \<noteq> []" "last d = ?smp" by blast
  have "window_of d7 ''node_availability'' ?nid = window_of d1 ''node_availability'' ?nid"
    using append_sample_other [OF a2, of "''node_availability''" ?nid]
      append_sample_other [OF a3, of "''node_availability''" ?nid]
      append_sample_other [OF a4, of "''node_availability''" ?nid]
      append_sample_other [OF a5, of "''node_availability''" ?nid]
      append_sample_other [OF a6, of "''node_availability''" ?nid]
      append_sample_other [OF a7, of "''node_availability''" ?nid]
    by simp
  moreover from rest have "window_of (kpi_data s1) ''node_availability'' ?nid =
      window_of d7 ''node_availability'' ?nid"
    by (auto dest: append_sample_other [where k' = "''node_availability''" and n' = ?nid])
  ultimately show ?thesis using d nodes by simp
qed

lemma platform_fault_tick_frame:
  "p_kpi (snd (platform_fault_tick w p)) = p_kpi p \<and>
   p_event (snd (platform_fault_tick w p)) = p_event p"
  by (simp add: platform_fault_tick_def split_def)

lemma fault_ticks_frame: "p_kpi (snd (fault_ticks n w p)) = p_kpi p"
proof (induction n arbitrary: w p)
  case 0
  show ?case by simp
next
  case (Suc n)
  obtain w1 p1 where t: "platform_fault_tick w p = (w1, p1)"
    by (cases "platform_fault_tick w p") auto
  with platform_fault_tick_frame [of w p] have "p_kpi p1 = p_kpi p" by simp
  with Suc.IH [of w1 p1] t show ?case by simp
qed

text \<open>
  C9.  A pass of the fault generation changes the node list of the OAM module only: the KPI
  module's state, and with it its node list, is the same before and after, and after any
  number of passes from the initial platform every node of the KPI module's list is still
  active.  The availability sample that the KPI collector appends for a node is 100 when
  the status in the KPI module's copy of the node is active and 0 otherwise, so it reads 100
  for an active copy whatever the fault generation did to the OAM module's copy.
\<close>

theorem C9_independent_node_lists:
  "p_kpi (snd (platform_fault_tick w p)) = p_kpi p \<and>
   kpi_network_nodes (p_kpi (snd (platform_fault_tick w p))) = kpi_network_nodes (p_kpi p) \<and>
   p_kpi (snd (fault_ticks n w platform_init)) = kpi_init \<and>
   (\<forall>node \<in> set (kpi_network_nodes (p_kpi (snd (fault_ticks n w platform_init)))).
      n_status node = ''active'') \<and>
   (collect_node_kpis node w2 (p_kpi (snd (platform_fault_tick w p))) = Inr (w3, k3) \<longrightarrow>
      (\<exists>d. window_of (kpi_data k3) ''node_availability'' (n_id node) = Some d \<and> d \<noteq> [] \<and>
         s_value (last d) = (if n_status node = ''active'' then 100 else 0) \<and>
         (n_status node = ''active'' \<longrightarrow> s_value (last d) = 100)))"
proof (intro conjI impI)
  show "p_kpi (snd (platform_fault_tick w p)) = p_kpi p"
    by (simp add: platform_fault_tick_frame)
  then show "kpi_network_nodes (p_kpi (snd (platform_fault_tick w p))) = kpi_network_nodes (p_kpi p)"
    by simp
  show k: "p_kpi (snd (fault_ticks n w platform_init)) = kpi_init"
    by (simp add: fault_ticks_frame platform_init_def)
  show "\<forall>node \<in> set (kpi_network_nodes (p_kpi (snd (fault_ticks n w platform_init)))).
      n_status node = ''active''"
    unfolding k by (simp add: kpi_init_def initial_nodes_def)
next
  assume "collect_node_kpis node w2 (p_kpi (snd (platform_fault_tick w p))) = Inr (w3, k3)"
  from collect_node_kpis_availability [OF this]
  show "\<exists>d. window_of (kpi_data k3) ''node_availability'' (n_id node) = Some d \<and> d \<noteq> [] \<and>
         s_value (last d) = (if n_status node = ''active'' then 100 else 0) \<and>
         (n_status node = ''active'' \<longrightarrow> s_value (last d) = 100)"
    by auto
qed

theorem C9_outage_witness:
  "map n_status (oam_network_nodes (p_oam (snd (platform_fault_tick outage_world platform_init)))) =
     [''down'', ''active'', ''active'', ''active'', ''active'', ''active''] \<and>
   map n_status (kpi_network_nodes (p_kpi (snd (platform_fault_tick outage_world platform_init)))) =
     [''active'', ''active'', ''active'', ''active'', ''active'', ''active''] \<and>
   (case collect_node_kpis (hd initial_nodes) outage_world
           (p_kpi (snd (platform_fault_tick outage_world platform_init))) of
      Inl e \<Rightarrow> False
    | Inr r \<Rightarrow>
        map_option (map s_value) (window_of (kpi_data (snd r)) ''node_availability'' ''gnb-001'')
          = Some [100])"
proof -
  have oam: "map n_status (oam_network_nodes (p_oam (snd (platform_fault_tick outage_world platform_init)))) =
     [''down'', ''active'', ''active'', ''active'', ''active'', ''active'']"
    by (simp add: platform_fault_tick_def platform_init_def fault_generation_tick_def oam_init_def
        initial_nodes_def upt_rec fault_types_def py_random_def outage_world_def
        generate_fault_def create_alarm_def now_iso_def set_status_def Let_def)
  have k: "p_kpi (snd (platform_fault_tick outage_world platform_init)) = kpi_init"
    using C9_independent_node_lists [of outage_world platform_init]
    by (simp add: platform_init_def)
  have nodes: "map n_status (kpi_network_nodes kpi_init) =
     [''active'', ''active'', ''active'', ''active'', ''active'', ''active'']"
    by (simp add: kpi_init_def initial_nodes_def)
  have coll: "case collect_node_kpis (hd initial_nodes) outage_world kpi_init of
      Inl e \<Rightarrow> False
    | Inr r \<Rightarrow>
        map_option (map s_value) (window_of (kpi_data (snd r)) ''node_availability'' ''gnb-001'')
          = Some [100]"
    by (simp add: collect_node_kpis_def kpi_init_def kpi_definitions_def initial_nodes_def
        append_sample_def deque_append_def maxlen_def bind_err_def now_iso_def py_uniform_def
        py_random_def outage_world_def window_of_def Let_def)
  have run: "collect_node_kpis (hd initial_nodes) outage_world kpi_init =
      Inr (fst (projr (collect_node_kpis (hd initial_nodes) outage_world kpi_init)),
           snd (projr (collect_node_kpis (hd initial_nodes) outage_world kpi_init)))"
    using coll by (cases "collect_node_kpis (hd initial_nodes) outage_world kpi_init") simp_all
  from C9_independent_node_lists [of outage_world platform_init 0 "hd initial_nodes" outage_world
      "fst (projr (collect_node_kpis (hd initial_nodes) outage_world kpi_init))"
      "snd (projr (collect_node_kpis (hd initial_nodes) outage_world kpi_init))"]
    run oam nodes coll
  show ?thesis
    unfolding k by (intro conjI)
qed

section \<open>Time-range queries\<close>

lemma filter_points_truthy:
  "r \<noteq> 0 \<Longrightarrow>
   filter_points im (Some r) d w = (kept_since (im (shd (clock w)) r) d, w\<lparr>clock := stl (clock w)\<rparr>)"
  by (simp add: filter_points_def now_iso_def kept_since_def)

lemma get_kpi_windows_filtered:
  assumes "r \<noteq> 0"
  shows "get_kpi_windows im (Some r) entries w nid res = (w1, nid1, res1) \<Longrightarrow>
   sset (clock w1) \<subseteq> sset (clock w) \<and>
   (\<forall>e \<in> set res1. e \<in> set res \<or>
      (\<exists>d t. (fst e, d) \<in> set entries \<and> t \<in> sset (clock w) \<and> snd e = kept_since (im t r) d))"
proof (induction entries arbitrary: w nid res)
  case Nil
  then show ?case by auto
next
  case (Cons entry rest)
  let ?f = "kept_since (im (shd (clock w)) r) (snd entry)"
  let ?w = "w\<lparr>clock := stl (clock w)\<rparr>"
  let ?res = "if ?f \<noteq> [] then AList.update (fst entry) ?f res else res"
  from Cons.prems assms
  have run: "get_kpi_windows im (Some r) rest ?w (Some (fst entry)) ?res = (w1, nid1, res1)"
    by (simp add: filter_points_truthy)
  note ih = Cons.IH [OF run]
  have sub: "sset (clock ?w) \<subseteq> sset (clock w)"
    by (auto dest: stl_sset)
  have res: "\<forall>e \<in> set ?res. e \<in> set res \<or> e = (fst entry, ?f)"
    using set_alist_update [of "fst entry" ?f res] by auto
  show ?case
  proof (intro conjI ballI)
    show "sset (clock w1) \<subseteq> sset (clock w)" using ih sub by blast
  next
    fix e assume "e \<in> set res1"
    with ih have "e \<in> set ?res \<or>
      (\<exists>d t. (fst e, d) \<in> set rest \<and> t \<in> sset (clock ?w) \<and> snd e = kept_since (im t r) d)"
      by blast
    then show "e \<in> set res \<or>
      (\<exists>d t. (fst e, d) \<in> set (entry # rest) \<and> t \<in> sset (clock w) \<and>
         snd e = kept_since (im t r) d)"
    proof
      assume "e \<in> set ?res"
      with res have "e \<in> set res \<or> e = (fst entry, ?f)" by blast
      then show ?thesis
      proof
        assume "e = (fst entry, ?f)"
        then have "(fst e, snd entry) \<in> set (entry # rest)" "shd (clock w) \<in> sset (clock w)"
          "snd e = kept_since (im (shd (clock w)) r) (snd entry)"
          by (simp_all add: shd_sset)
        then show ?thesis by blast
      qed simp
    next
      assume "\<exists>d t. (fst e, d) \<in> set rest \<and> t \<in> sset (clock ?w) \<and> snd e = kept_since (im t r) d"
      with sub show ?thesis by auto
    qed
  qed
qed

lemma windows_filtered_mono:
  "windows_filtered im r w1 stored res \<Longrightarrow> sset (clock w1) \<subseteq> sset (clock w) \<Longrightarrow>
   windows_filtered im r w stored res"
  unfolding windows_filtered_def by blast

lemma get_kpi_entries_filtered:
  assumes "r \<noteq> 0"
  shows "get_kpi_entries im (Some r) entries w nid result = (w1, result1) \<Longrightarrow>
   \<forall>e \<in> set result1. e \<in> set result \<or>
      (\<exists>nds. (fst e, nds) \<in> set entries \<and> windows_filtered im r w nds (snd e))"
proof (induction entries arbitrary: w nid result)
  case Nil
  then show ?case by auto
next
  case (Cons entry rest)
  let ?k = "fst entry"
  have step: "\<exists>w2 nid2 res. get_kpi_entries im (Some r) rest w2 nid2
        (AList.update ?k res (AList.update ?k [] result)) = (w1, result1) \<and>
      sset (clock w2) \<subseteq> sset (clock w) \<and> windows_filtered im r w (snd entry) res"
  proof (cases "truthy_str nid")
    case False
    obtain w2 nid2 res where g: "get_kpi_windows im (Some r) (snd entry) w nid [] = (w2, nid2, res)"
      by (cases "get_kpi_windows im (Some r) (snd entry) w nid []") auto
    from get_kpi_windows_filtered [OF assms g]
    have "sset (clock w2) \<subseteq> sset (clock w)" "windows_filtered im r w (snd entry) res"
      by (auto simp: windows_filtered_def)
    moreover from Cons.prems False g
    have "get_kpi_entries im (Some r) rest w2 nid2
        (AList.update ?k res (AList.update ?k [] result)) = (w1, result1)" by simp
    ultimately show ?thesis by blast
  next
    case True
    let ?n = "case nid of None \<Rightarrow> [] | Some n \<Rightarrow> n"
    show ?thesis
    proof (cases "map_of (snd entry) ?n")
      case None
      with Cons.prems True
      have "get_kpi_entries im (Some r) rest w nid (AList.update ?k [] result) = (w1, result1)"
        by simp
      then have "get_kpi_entries im (Some r) rest w nid
          (AList.update ?k [] (AList.update ?k [] result)) = (w1, result1)"
        by simp
      moreover have "windows_filtered im r w (snd entry) []"
        by (simp add: windows_filtered_def)
      ultimately show ?thesis by blast
    next
      case (Some d)
      obtain w2 nid2 res where g: "get_kpi_windows im (Some r) [(?n, d)] w nid [] = (w2, nid2, res)"
        by (cases "get_kpi_windows im (Some r) [(?n, d)] w nid []") auto
      from Some have mem: "(?n, d) \<in> set (snd entry)" by (rule map_of_SomeD)
      from get_kpi_windows_filtered [OF assms g] mem
      have "sset (clock w2) \<subseteq> sset (clock w)" "windows_filtered im r w (snd entry) res"
        by (auto simp: windows_filtered_def)
      moreover from Cons.prems True Some g
      have "get_kpi_entries im (Some r) rest w2 nid2
          (AList.update ?k res (AList.update ?k [] result)) = (w1, result1)" by simp
      ultimately show ?thesis by blast
    qed
  qed
  then obtain w2 nid2 res where
    run: "get_kpi_entries im (Some r) rest w2 nid2
        (AList.update ?k res (AList.update ?k [] result)) = (w1, result1)"
    and sub: "sset (clock w2) \<subseteq> sset (clock w)"
    and wf: "windows_filtered im r w (snd entry) res" by blast
  note ih = Cons.IH [OF run]
  have upd: "\<forall>e \<in> set (AList.update ?k res (AList.update ?k [] result)).
      e \<in> set result \<or> e = (?k, res) \<or> e = (?k, [])"
    using set_alist_update [of ?k res "AList.update ?k [] result"]
      set_alist_update [of ?k "[]" result] by auto
  show ?case
  proof
    fix e assume "e \<in> set result1"
    with ih have "e \<in> set (AList.update ?k res (AList.update ?k [] result)) \<or>
      (\<exists>nds. (fst e, nds) \<in> set rest \<and> windows_filtered im r w2 nds (snd e))" by blast
    then show "e \<in> set result \<or>
      (\<exists>nds. (fst e, nds) \<in> set (entry # rest) \<and> windows_filtered im r w nds (snd e))"
    proof
      assume "e \<in> set (AList.update ?k res (AList.update ?k [] result))"
      with upd have "e \<in> set result \<or> e = (?k, res) \<or> e = (?k, [])" by blast
      then show ?thesis
      proof (elim disjE)
        assume "e = (?k, res)"
        with wf have "(fst e, snd entry) \<in> set (entry # rest)"
          "windows_filtered im r w (snd entry) (snd e)" by simp_all
        then show ?thesis by blast
      next
        assume "e = (?k, [])"
        then have "(fst e, snd entry) \<in> set (entry # rest)"
          "windows_filtered im r w (snd entry) (snd e)" by (simp_all add: windows_filtered_def)
        then show ?thesis by blast
      qed simp
    next
      assume "\<exists>nds. (fst e, nds) \<in> set rest \<and> windows_filtered im r w2 nds (snd e)"
      then obtain nds where "(fst e, nds) \<in> set rest" "windows_filtered im r w2 nds (snd e)"
        by blast
      with sub have "(fst e, nds) \<in> set (entry # rest)" "windows_filtered im r w nds (snd e)"
        by (auto intro: windows_filtered_mono)
      then show ?thesis by blast
    qed
  qed
qed

lemma get_kpi_data_filtered:
  assumes "r \<noteq> 0" and "get_kpi_data im kid nid (Some r) w s = (w1, result)"
  shows "\<forall>e \<in> set result.
      \<exists>nds. (fst e, nds) \<in> set (kpi_data s) \<and> windows_filtered im r w nds (snd e)"
proof (cases "truthy_str kid")
  case False
  with assms(2) have "get_kpi_entries im (Some r) (kpi_data s) w nid [] = (w1, result)"
    by (simp add: get_kpi_data_def)
  from get_kpi_entries_filtered [OF assms(1) this] show ?thesis by simp
next
  case True
  let ?k = "case kid of None \<Rightarrow> [] | Some k \<Rightarrow> k"
  show ?thesis
  proof (cases "map_of (kpi_data s) ?k")
    case None
    with assms(2) True show ?thesis by (simp add: get_kpi_data_def)
  next
    case (Some nd)
    then have mem: "(?k, nd) \<in> set (kpi_data s)" by (rule map_of_SomeD)
    from assms(2) True Some
    have "get_kpi_entries im (Some r) [(?k, nd)] w nid [] = (w1, result)"
      by (simp add: get_kpi_data_def)
    from get_kpi_entries_filtered [OF assms(1) this] mem show ?thesis by auto
  qed
qed

lemma get_events_time_filter:
  assumes "r \<noteq> 0" and "get_events im et nid None w v = Inr (f2, w2)"
  shows "get_events im et nid (Some r) w v =
     Inr ([e \<leftarrow> f2. im (shd (clock w)) r \<le> e_timestamp e], snd (now_iso w))"
  using assms
  by (auto simp: get_events_def Let_def bind_err_def truthy_num_def now_iso_def
      split: sum.splits if_splits)

text \<open>
  What the time filter keeps.  With a time range that is not zero, every window returned by
  the KPI query is the stored window of the same KPI and node reduced to the samples whose
  timestamp string is greater than or equal to a cutoff string, in stored order; the cutoff
  is the text of a clock reading taken during the query, moved back by the range.  The event
  query keeps of the events that pass its other filters exactly those whose timestamp string
  is greater than or equal to the cutoff, in stored order.  The comparison is the
  lexicographic order of strings by character code.
\<close>

lemma time_range_filter_sound:
  assumes r: "r \<noteq> 0"
  shows "(get_kpi_data im kid nid (Some r) w s = (w1, result) \<longrightarrow>
      (\<forall>e \<in> set result. \<exists>nds. (fst e, nds) \<in> set (kpi_data s) \<and>
         (\<forall>x \<in> set (snd e). \<exists>d t. (fst x, d) \<in> set nds \<and> t \<in> sset (clock w) \<and>
            snd x = [dp \<leftarrow> d. im t r \<le> s_timestamp dp]))) \<and>
    get_events im None None (Some r) w v =
      Inr ([e \<leftarrow> events v. im (shd (clock w)) r \<le> e_timestamp e], snd (now_iso w)) \<and>
    (get_events im et eid None w v = Inr (f2, w2) \<longrightarrow>
       get_events im et eid (Some r) w v =
         Inr ([e \<leftarrow> f2. im (shd (clock w)) r \<le> e_timestamp e], snd (now_iso w))) \<and>
    (\<forall>a x b y. ((a # x :: string) \<le> b # y) =
        ((of_char a :: nat) < of_char b \<or> a = b \<and> x \<le> y)) \<and>
    (\<forall>y :: string. [] \<le> y) \<and> (\<forall>a x. \<not> (a # x :: string) \<le> [])"
proof (intro conjI impI allI)
  assume "get_kpi_data im kid nid (Some r) w s = (w1, result)"
  from get_kpi_data_filtered [OF r this]
  show "\<forall>e \<in> set result. \<exists>nds. (fst e, nds) \<in> set (kpi_data s) \<and>
         (\<forall>x \<in> set (snd e). \<exists>d t. (fst x, d) \<in> set nds \<and> t \<in> sset (clock w) \<and>
            snd x = [dp \<leftarrow> d. im t r \<le> s_timestamp dp])"
    by (simp add: windows_filtered_def kept_since_def)
next
  have "get_events im None None None w v = Inr (events v, w)"
    by (simp add: get_events_def bind_err_def truthy_str_def truthy_num_def)
  from get_events_time_filter [OF r this]
  show "get_events im None None (Some r) w v =
      Inr ([e \<leftarrow> events v. im (shd (clock w)) r \<le> e_timestamp e], snd (now_iso w))" .
next
  assume "get_events im et eid None w v = Inr (f2, w2)"
  from get_events_time_filter [OF r this]
  show "get_events im et eid (Some r) w v =
         Inr ([e \<leftarrow> f2. im (shd (clock w)) r \<le> e_timestamp e], snd (now_iso w))" .
next
  fix a b :: char and x y :: string
  show "(a # x \<le> b # y) = ((of_char a :: nat) < of_char b \<or> a = b \<and> x \<le> y)"
    by (simp add: less_char_def)
next
  fix y :: string show "[] \<le> y" by simp
next
  fix a :: char and x :: string show "\<not> a # x \<le> []" by simp
qed

lemma time_range_filter_example:
  "get_kpi_data example_cutoff (Some ''cpu_utilization'') None (Some 300) example_world
     example_history =
     (example_world\<lparr>clock := stl (clock example_world)\<rparr>,
      [(''cpu_utilization'',
        [(''gnb-001'',
          [\<lparr>s_timestamp = ''2024-01-01T00:05:00'', s_value = 52\<rparr>,
           \<lparr>s_timestamp = ''2024-01-01T00:10:00'', s_value = 63\<rparr>])])]) \<and>
   map_sum id (\<lambda>r. map e_id (fst r))
     (get_events example_cutoff None None (Some 300) example_world loaded_log) = Inr [2, 3]"
proof -
  have r: "(300 :: real) \<noteq> 0" by simp
  have k: "get_kpi_data example_cutoff (Some ''cpu_utilization'') None (Some 300) example_world
     example_history =
     (example_world\<lparr>clock := stl (clock example_world)\<rparr>,
      [(''cpu_utilization'',
        [(''gnb-001'',
          [\<lparr>s_timestamp = ''2024-01-01T00:05:00'', s_value = 52\<rparr>,
           \<lparr>s_timestamp = ''2024-01-01T00:10:00'', s_value = 63\<rparr>])])])"
    by (simp add: get_kpi_data_def example_history_def truthy_str_def filter_points_def
        now_iso_def example_cutoff_def)
  have ev: "map (\<lambda>e. (e_id e, e_timestamp e)) (events loaded_log) =
      [(1, ''2024-01-01T00:00:00''), (2, ''2024-01-01T00:05:00''), (3, ''2024-01-01T00:10:00'')]"
    by (simp add: loaded_log_def run_load_test_def evt_init_def nodes_of_type_initial
        load_levels_def py_uniform_def py_randint_def py_random_def py_choice_def now_iso_def
        py_sleep_def example_world_def load_test_event_def complete_load_test_def
        completion_event_def generate_event_def Let_def)
  have "map e_id [e \<leftarrow> events loaded_log. ''2024-01-01T00:05:00'' \<le> e_timestamp e] =
      map fst [p \<leftarrow> map (\<lambda>e. (e_id e, e_timestamp e)) (events loaded_log).
                ''2024-01-01T00:05:00'' \<le> snd p]"
    by (simp add: filter_map comp_def)
  also have "\<dots> = [2, 3]"
    unfolding ev by simp
  finally have f: "map e_id [e \<leftarrow> events loaded_log. ''2024-01-01T00:05:00'' \<le> e_timestamp e]
      = [2, 3]" .
  from time_range_filter_sound [OF r, where im = example_cutoff
      and kid = "Some ''cpu_utilization''" and nid = None and w = example_world
      and s = example_history and ?w1.0 = "example_world\<lparr>clock := stl (clock example_world)\<rparr>"
      and result = "[(''cpu_utilization'',
        [(''gnb-001'',
          [\<lparr>s_timestamp = ''2024-01-01T00:05:00'', s_value = 52\<rparr>,
           \<lparr>s_timestamp = ''2024-01-01T00:10:00'', s_value = 63\<rparr>])])]"
      and v = loaded_log and et = None and eid = None and ?f2.0 = "events loaded_log"
      and ?w2.0 = example_world] k f
  show ?thesis
    by (simp add: example_cutoff_def)
qed

subsection \<open>The KPI query after a collection pass\<close>

lemma collect_all_once:
  "collect_all (kpi_network_nodes kpi_init) tick_world kpi_init =
     Inr (tick_world\<lparr>rand := sconst 0.5, clock := sconst ''2024-01-01T00:10:00''\<rparr>,
          kpi_init\<lparr>kpi_data :=
     [(''node_availability'',
        [(''gnb-001'', [\<lparr>s_timestamp = ''2024-01-01T00:10:00'', s_value = 100\<rparr>]),
         (''gnb-002'', [\<lparr>s_timestamp = ''2024-01-01T00:10:00'', s_value = 100\<rparr>]),
         (''amf-001'', [\<lparr>s_timestamp = ''2024-01-01T00:10:00'', s_value = 100\<rparr>]),
         (''smf-001'', [\<lparr>s_timestamp = ''2024-01-01T00:10:00'', s_value = 100\<rparr>]),
         (''upf-001'', [\<lparr>s_timestamp = ''2024-01-01T00:10:00'', s_value = 100\<rparr>]),
         (''pcf-001'', [\<lparr>s_timestamp = ''2024-01-01T00:10:00'', s_value = 100\<rparr>])]),
      (''service_latency'',
        [(''gnb-001'', [\<lparr>s_timestamp = ''2024-01-01T00:10:00'', s_value = 105\<rparr>]),
         (''gnb-002'', [\<lparr>s_timestamp = ''2024-01-01T00:10:00'', s_value = 105\<rparr>]),
         (''amf-001'', [\<lparr>s_timestamp = ''2024-01-01T00:10:00'', s_value = 105\<rparr>]),
         (''smf-001'', [\<lparr>s_timestamp = ''2024-01-01T00:10:00'', s_value = 105\<rparr>]),
         (''upf-001'', [\<lparr>s_timestamp = ''2024-01-01T00:10:00'', s_value = 105\<rparr>]),
         (''pcf-001'', [\<lparr>s_timestamp = ''2024-01-01T00:10:00'', s_value = 105\<rparr>])]),
      (''error_rate'',
        [(''gnb-001'', [\<lparr>s_timestamp = ''2024-01-01T00:10:00'', s_value = 5\<rparr>]),
         (''gnb-002'', [\<lparr>s_timestamp = ''2024-01-01T00:10:00'', s_value = 5\<rparr>]),
         (''amf-001'', [\<lparr>s_timestamp = ''2024-01-01T00:10:00'', s_value = 5\<rparr>]),
         (''smf-001'', [\<lparr>s_timestamp = ''2024-01-01T00:10:00'', s_value = 5\<rparr>]),
         (''upf-001'', [\<lparr>s_timestamp = ''2024-01-01T00:10:00'', s_value = 5\<rparr>]),
         (''pcf-001'', [\<lparr>s_timestamp = ''2024-01-01T00:10:00'', s_value = 5\<rparr>])]),
      (''cpu_utilization'',
        [(''gnb-001'', [\<lparr>s_timestamp = ''2024-01-01T00:10:00'', s_value = 57.5\<rparr>]),
         (''gnb-002'', [\<lparr>s_timestamp = ''2024-01-01T00:10:00'', s_value = 57.5\<rparr>]),
         (''amf-001'', [\<lparr>s_timestamp = ''2024-01-01T00:10:00'', s_value = 57.5\<rparr>]),
         (''smf-001'', [\<lparr>s_timestamp = ''2024-01-01T00:10:00'', s_value = 57.5\<rparr>]),
         (''upf-001'', [\<lparr>s_timestamp = ''2024-01-01T00:10:00'', s_value = 57.5\<rparr>]),
         (''pcf-001'', [\<lparr>s_timestamp = ''2024-01-01T00:10:00'', s_value = 57.5\<rparr>])]),
      (''memory_utilization'',
        [(''gnb-001'', [\<lparr>s_timestamp = ''2024-01-01T00:10:00'', s_value = 60\<rparr>]),
         (''gnb-002'', [\<lparr>s_timestamp = ''2024-01-01T00:10:00'', s_value = 60\<rparr>]),
         (''amf-001'', [\<lparr>s_timestamp = ''2024-01-01T00:10:00'', s_value = 60\<rparr>]),
         (''smf-001'', [\<lparr>s_timestamp = ''2024-01-01T00:10:00'', s_value = 60\<rparr>]),
         (''upf-001'', [\<lparr>s_timestamp = ''2024-01-01T00:10:00'', s_value = 60\<rparr>]),
         (''pcf-001'', [\<lparr>s_timestamp = ''2024-01-01T00:10:00'', s_value = 60\<rparr>])]),
      (''throughput'',
        [(''gnb-001'', [\<lparr>s_timestamp = ''2024-01-01T00:10:00'', s_value = 1050\<rparr>]),
         (''gnb-002'', [\<lparr>s_timestamp = ''2024-01-01T00:10:00'', s_value = 1050\<rparr>]),
         (''amf-001'', [\<lparr>s_timestamp = ''2024-01-01T00:10:00'', s_value = 1050\<rparr>]),
         (''smf-001'', [\<lparr>s_timestamp = ''2024-01-01T00:10:00'', s_value = 1050\<rparr>]),
         (''upf-001'', [\<lparr>s_timestamp = ''2024-01-01T00:10:00'', s_value = 1050\<rparr>]),
         (''pcf-001'', [\<lparr>s_timestamp = ''2024-01-01T00:10:00'', s_value = 1050\<rparr>])]),
      (''connection_success_rate'',
        [(''gnb-001'', [\<lparr>s_timestamp = ''2024-01-01T00:10:00'', s_value = 95\<rparr>]),
         (''gnb-002'', [\<lparr>s_timestamp = ''2024-01-01T00:10:00'', s_value = 95\<rparr>]),
         (''amf-001'', [\<lparr>s_timestamp = ''2024-01-01T00:10:00'', s_value = 95\<rparr>]),
         (''smf-001'', [\<lparr>s_timestamp = ''2024-01-01T00:10:00'', s_value = 95\<rparr>]),
         (''upf-001'', [\<lparr>s_timestamp = ''2024-01-01T00:10:00'', s_value = 95\<rparr>]),
         (''pcf-001'', [\<lparr>s_timestamp = ''2024-01-01T00:10:00'', s_value = 95\<rparr>])]),
      (''recovery_time'', [])]\<rparr>)"
  by (simp add: kpi_init_def kpi_definitions_def initial_nodes_def
      collect_node_kpis_def append_sample_def deque_append_def maxlen_def bind_err_def
      now_iso_def py_uniform_def py_random_def tick_world_def Let_def)

lemma collected_once_store:
  "kpi_data collected_once =
     [(''node_availability'',
        [(''gnb-001'', [\<lparr>s_timestamp = ''2024-01-01T00:10:00'', s_value = 100\<rparr>]),
         (''gnb-002'', [\<lparr>s_timestamp = ''2024-01-01T00:10:00'', s_value = 100\<rparr>]),
         (''amf-001'', [\<lparr>s_timestamp = ''2024-01-01T00:10:00'', s_value = 100\<rparr>]),
         (''smf-001'', [\<lparr>s_timestamp = ''2024-01-01T00:10:00'', s_value = 100\<rparr>]),
         (''upf-001'', [\<lparr>s_timestamp = ''2024-01-01T00:10:00'', s_value = 100\<rparr>]),
         (''pcf-001'', [\<lparr>s_timestamp = ''2024-01-01T00:10:00'', s_value = 100\<rparr>])]),
      (''service_latency'',
        [(''gnb-001'', [\<lparr>s_timestamp = ''2024-01-01T00:10:00'', s_value = 105\<rparr>]),
         (''gnb-002'', [\<lparr>s_timestamp = ''2024-01-01T00:10:00'', s_value = 105\<rparr>]),
         (''amf-001'', [\<lparr>s_timestamp = ''2024-01-01T00:10:00'', s_value = 105\<rparr>]),
         (''smf-001'', [\<lparr>s_timestamp = ''2024-01-01T00:10:00'', s_value = 105\<rparr>]),
         (''upf-001'', [\<lparr>s_timestamp = ''2024-01-01T00:10:00'', s_value = 105\<rparr>]),
         (''pcf-001'', [\<lparr>s_timestamp = ''2024-01-01T00:10:00'', s_value = 105\<rparr>])]),
      (''error_rate'',
        [(''gnb-001'', [\<lparr>s_timestamp = ''2024-01-01T00:10:00'', s_value = 5\<rparr>]),
         (''gnb-002'', [\<lparr>s_timestamp = ''2024-01-01T00:10:00'', s_value = 5\<rparr>]),
         (''amf-001'', [\<lparr>s_timestamp = ''2024-01-01T00:10:00'', s_value = 5\<rparr>]),
         (''smf-001'', [\<lparr>s_timestamp = ''2024-01-01T00:10:00'', s_value = 5\<rparr>]),
         (''upf-001'', [\<lparr>s_timestamp = ''2024-01-01T00:10:00'', s_value = 5\<rparr>]),
         (''pcf-001'', [\<lparr>s_timestamp = ''2024-01-01T00:10:00'', s_value = 5\<rparr>])]),
      (''cpu_utilization'',
        [(''gnb-001'', [\<lparr>s_timestamp = ''2024-01-01T00:10:00'', s_value = 57.5\<rparr>]),
         (''gnb-002'', [\<lparr>s_timestamp = ''2024-01-01T00:10:00'', s_value = 57.5\<rparr>]),
         (''amf-001'', [\<lparr>s_timestamp = ''2024-01-01T00:10:00'', s_value = 57.5\<rparr>]),
         (''smf-001'', [\<lparr>s_timestamp = ''2024-01-01T00:10:00'', s_value = 57.5\<rparr>]),
         (''upf-001'', [\<lparr>s_timestamp = ''2024-01-01T00:10:00'', s_value = 57.5\<rparr>]),
         (''pcf-001'', [\<lparr>s_timestamp = ''2024-01-01T00:10:00'', s_value = 57.5\<rparr>])]),
      (''memory_utilization'',
        [(''gnb-001'', [\<lparr>s_timestamp = ''2024-01-01T00:10:00'', s_value = 60\<rparr>]),
         (''gnb-002'', [\<lparr>s_timestamp = ''2024-01-01T00:10:00'', s_value = 60\<rparr>]),
         (''amf-001'', [\<lparr>s_timestamp = ''2024-01-01T00:10:00'', s_value = 60\<rparr>]),
         (''smf-001'', [\<lparr>s_timestamp = ''2024-01-01T00:10:00'', s_value = 60\<rparr>]),
         (''upf-001'', [\<lparr>s_timestamp = ''2024-01-01T00:10:00'', s_value = 60\<rparr>]),
         (''pcf-001'', [\<lparr>s_timestamp = ''2024-01-01T00:10:00'', s_value = 60\<rparr>])]),
      (''throughput'',
        [(''gnb-001'', [\<lparr>s_timestamp = ''2024-01-01T00:10:00'', s_value = 1050\<rparr>]),
         (''gnb-002'', [\<lparr>s_timestamp = ''2024-01-01T00:10:00'', s_value = 1050\<rparr>]),
         (''amf-001'', [\<lparr>s_timestamp = ''2024-01-01T00:10:00'', s_value = 1050\<rparr>]),
         (''smf-001'', [\<lparr>s_timestamp = ''2024-01-01T00:10:00'', s_value = 1050\<rparr>]),
         (''upf-001'', [\<lparr>s_timestamp = ''2024-01-01T00:10:00'', s_value = 1050\<rparr>]),
         (''pcf-001'', [\<lparr>s_timestamp = ''2024-01-01T00:10:00'', s_value = 1050\<rparr>])]),
      (''connection_success_rate'',
        [(''gnb-001'', [\<lparr>s_timestamp = ''2024-01-01T00:10:00'', s_value = 95\<rparr>]),
         (''gnb-002'', [\<lparr>s_timestamp = ''2024-01-01T00:10:00'', s_value = 95\<rparr>]),
         (''amf-001'', [\<lparr>s_timestamp = ''2024-01-01T00:10:00'', s_value = 95\<rparr>]),
         (''smf-001'', [\<lparr>s_timestamp = ''2024-01-01T00:10:00'', s_value = 95\<rparr>]),
         (''upf-001'', [\<lparr>s_timestamp = ''2024-01-01T00:10:00'', s_value = 95\<rparr>]),
         (''pcf-001'', [\<lparr>s_timestamp = ''2024-01-01T00:10:00'', s_value = 95\<rparr>])]),
      (''recovery_time'', [])]"
  by (simp add: collected_once_def collect_all_once)

text \<open>
  C8.  After one collection pass over the six nodes every window holds one sample, taken at
  00:10:00.  A KPI query over the last 300 seconds, with no KPI filter and no node filter,
  cuts at 00:05:00, so every stored sample is at or after the cutoff.  The query returns the
  six windows of the first KPI, and of every later KPI only the window of the node visited
  last: the inner loop assigns its loop variable to the parameter \<^verbatim>\<open>node_id\<close>, which then
  acts as a node filter.  The sample of \<^verbatim>\<open>cpu_utilization\<close> on \<^verbatim>\<open>gnb-001\<close> is stored, is
  at or after the cutoff, and is not returned.
\<close>

theorem C8_kpi_query_drops_records:
  "map_sum id snd (collect_all (kpi_network_nodes kpi_init) tick_world kpi_init) =
     Inr collected_once \<and>
   window_of (kpi_data collected_once) ''cpu_utilization'' ''gnb-001'' =
     Some [\<lparr>s_timestamp = ''2024-01-01T00:10:00'', s_value = 57.5\<rparr>] \<and>
   example_cutoff ''2024-01-01T00:10:00'' 300 \<le> ''2024-01-01T00:10:00'' \<and>
   window_keys
     (snd (get_kpi_data example_cutoff None None (Some 300) tick_world collected_once)) =
     [(''node_availability'',
        [''gnb-001'', ''gnb-002'', ''amf-001'', ''smf-001'', ''upf-001'', ''pcf-001'']),
      (''service_latency'', [''pcf-001'']),
      (''error_rate'', [''pcf-001'']),
      (''cpu_utilization'', [''pcf-001'']),
      (''memory_utilization'', [''pcf-001'']),
      (''throughput'', [''pcf-001'']),
      (''connection_success_rate'', [''pcf-001'']),
      (''recovery_time'', [])]"
proof (intro conjI)
  show "map_sum id snd (collect_all (kpi_network_nodes kpi_init) tick_world kpi_init) =
     Inr collected_once"
    by (simp add: collected_once_def collect_all_once)
  show "window_of (kpi_data collected_once) ''cpu_utilization'' ''gnb-001'' =
     Some [\<lparr>s_timestamp = ''2024-01-01T00:10:00'', s_value = 57.5\<rparr>]"
    by (simp add: collected_once_store window_of_def)
  show "example_cutoff ''2024-01-01T00:10:00'' 300 \<le> ''2024-01-01T00:10:00''"
    by (simp add: example_cutoff_def)
  show "window_keys
     (snd (get_kpi_data example_cutoff None None (Some 300) tick_world collected_once)) =
     [(''node_availability'',
        [''gnb-001'', ''gnb-002'', ''amf-001'', ''smf-001'', ''upf-001'', ''pcf-001'']),
      (''service_latency'', [''pcf-001'']),
      (''error_rate'', [''pcf-001'']),
      (''cpu_utilization'', [''pcf-001'']),
      (''memory_utilization'', [''pcf-001'']),
      (''throughput'', [''pcf-001'']),
      (''connection_success_rate'', [''pcf-001'']),
      (''recovery_time'', [])]"
    by (simp add: window_keys_def get_kpi_data_def truthy_str_def filter_points_def
        example_cutoff_def collected_once_store now_iso_def tick_world_def)
qed

end
